theory Spec2Isabelle
  imports Main "HOL-Library.Sublist" "HOL-Library.AList"
begin

section \<open>The TiKV start script renderer\<close>

text \<open>
  This theory embeds \<^verbatim>\<open>pkg/manager/member/startscript/v2/tikv_start_script.go\<close>:
  the function \<^verbatim>\<open>RenderTiKVStartScript\<close>, the script templates it renders and the
  helper \<^verbatim>\<open>replaceTikvStartScriptDnsAwaitPart\<close>.  Go strings are byte strings and are
  modelled as \<^typ>\<open>string\<close> (a list of 8-bit characters); Go integers are only printed,
  never computed with, and are modelled as \<^typ>\<open>int\<close>.

  The renderer builds a value of \<^verbatim>\<open>TiKVStartScriptModel\<close> from the cluster object and
  hands it, together with the template text, to Go's \<^verbatim>\<open>text/template\<close> package.  What
  the rendered script looks like is therefore decided by that package, so the part of it
  that the templates of this file exercise is modelled here as well: the lexer (delimiters,
  trim markers, fields, identifiers, quoted names), the parser (\<^verbatim>\<open>define\<close>,
  \<^verbatim>\<open>if\<close>/\<^verbatim>\<open>else\<close>/\<^verbatim>\<open>end\<close>, \<^verbatim>\<open>template\<close>, field pipelines) and the executor.  Template
  syntax outside this part is answered with the error \<open>NotModelled\<close>, about which no
  theorem below concludes anything.
\<close>

subsection \<open>Errors and results\<close>

text \<open>
  Go reports a failure either by returning a non-nil \<^verbatim>\<open>error\<close> or by panicking.  The
  errors that the modelled part of \<^verbatim>\<open>text/template\<close> can produce are enumerated; a
  call either panics with one of them or returns its value.
\<close>

datatype goError =
    ErrUnclosedAction
  | ErrBadCharacter
  | ErrUnterminatedQuote
  | ErrUnexpectedEnd
  | ErrUnexpectedElse
  | ErrUnexpectedEOF
  | ErrMultipleDefinition string
  | ErrTemplateNotDefined string
  | ErrMaxDepth
  | ErrNilPointer string
  | ErrNoField string
  | ErrIncompleteTemplate
  | NotModelled

datatype 'a result = Panic goError | Return 'a

subsection \<open>Package strings\<close>

text \<open>
  \<open>Cut sep s\<close> is \<^verbatim>\<open>strings.Cut(s, sep)\<close>: the text before and after the first occurrence of
  \<open>sep\<close>, that is \<^verbatim>\<open>s[:i]\<close> and \<^verbatim>\<open>s[i+len(sep):]\<close> for \<^verbatim>\<open>i = strings.Index(s, sep)\<close>, and
  \<open>None\<close> when the index is \<open>-1\<close>.
\<close>

fun Cut :: "string \<Rightarrow> string \<Rightarrow> (string \<times> string) option" where
  "Cut sep [] = (if sep = [] then Some ([], []) else None)"
| "Cut sep (c # cs) =
     (if prefix sep (c # cs) then Some ([], drop (length sep) (c # cs))
      else map_option (\<lambda>(b, a). (c # b, a)) (Cut sep cs))"

text \<open>
  \<^verbatim>\<open>utf8.DecodeRuneInString\<close> reports how many bytes the first rune of a string occupies:
  the length of a well-formed UTF-8 sequence, and 1 for a byte that starts none.
\<close>

definition inRange :: "nat \<Rightarrow> nat \<Rightarrow> string \<Rightarrow> nat \<Rightarrow> bool" where
  "inRange lo hi s i \<longleftrightarrow> i < length s \<and> lo \<le> of_char (s ! i) \<and> of_char (s ! i) \<le> hi"

definition runeWidth :: "string \<Rightarrow> nat" where
  "runeWidth s =
     (if s = [] then 1
      else let b = (of_char (hd s) :: nat) in
        if 0xC2 \<le> b \<and> b \<le> 0xDF then (if inRange 0x80 0xBF s 1 then 2 else 1)
        else if 0xE0 \<le> b \<and> b \<le> 0xEF then
          (if inRange (if b = 0xE0 then 0xA0 else 0x80) (if b = 0xED then 0x9F else 0xBF) s 1
              \<and> inRange 0x80 0xBF s 2 then 3 else 1)
        else if 0xF0 \<le> b \<and> b \<le> 0xF4 then
          (if inRange (if b = 0xF0 then 0x90 else 0x80) (if b = 0xF4 then 0x8F else 0xBF) s 1
              \<and> inRange 0x80 0xBF s 2 \<and> inRange 0x80 0xBF s 3 then 4 else 1)
        else 1)"

function runes :: "string \<Rightarrow> string list" where
  "runes s = (if s = [] then [] else take (runeWidth s) s # runes (drop (runeWidth s) s))"
  by pat_completeness auto

termination runes
proof (relation "measure length")
  show "wf (measure length)" by simp
next
  fix s :: string
  assume "s \<noteq> []"
  moreover have "0 < runeWidth s" by (simp add: runeWidth_def Let_def)
  ultimately show "(drop (runeWidth s) s, s) \<in> measure length" by simp
qed

declare runes.simps [simp del]

text \<open>
  \<^verbatim>\<open>strings.ReplaceAll(s, old, new)\<close>.  For a non-empty \<open>old\<close> the occurrences are replaced
  from left to right without overlap (\<open>replaceEach\<close>); for the empty \<open>old\<close> Go inserts
  \<open>new\<close> before every rune and at the end.
\<close>

function replaceEach :: "string \<Rightarrow> string \<Rightarrow> string \<Rightarrow> string" where
  "replaceEach old new s =
     (if old = [] then s
      else case Cut old s of None \<Rightarrow> s | Some (a, b) \<Rightarrow> a @ new @ replaceEach old new b)"
  by pat_completeness auto

termination replaceEach
proof (relation "measure (\<lambda>(old, new, s). length s)")
  show "wf (measure (\<lambda>(old, new, s). length s))" by simp
next
  fix old new s :: string and x2 a b
  assume old: "old \<noteq> []" and cut: "Cut old s = Some x2" and x2: "(a, b) = x2"
  have shorter: "Cut old s = Some (a, b) \<Longrightarrow> length b < length s" for s a
  proof (induction s arbitrary: a)
    case Nil
    with old show ?case by simp
  next
    case (Cons c cs)
    show ?case
    proof (cases "prefix old (c # cs)")
      case True
      with Cons.prems have "b = drop (length old) (c # cs)" by simp
      with old show ?thesis by simp
    next
      case False
      with Cons.prems obtain a' where "Cut old cs = Some (a', b)" by auto
      with Cons.IH [of a'] show ?thesis by simp
    qed
  qed
  from cut x2 have "Cut old s = Some (a, b)" by simp
  then have "length b < length s" by (rule shorter)
  then show "((old, new, b), (old, new, s)) \<in> measure (\<lambda>(old, new, s). length s)"
    by simp
qed

declare replaceEach.simps [simp del]

definition ReplaceAll :: "string \<Rightarrow> string \<Rightarrow> string \<Rightarrow> string" where
  "ReplaceAll s old new =
     (if old = [] then new @ concat (map (\<lambda>r. r @ new) (runes s))
      else replaceEach old new s)"

text \<open>\<^verbatim>\<open>strings.Join(elems, sep)\<close>.\<close>

fun Join :: "string list \<Rightarrow> string \<Rightarrow> string" where
  "Join [] sep = []"
| "Join [x] sep = x"
| "Join (x # y # ys) sep = x @ sep @ Join (y # ys) sep"

text \<open>
  The white space of the template lexer (\<^verbatim>\<open>" \t\r\n"\<close>), and \<^verbatim>\<open>strings.TrimRight\<close> and
  \<^verbatim>\<open>strings.TrimLeft\<close> with that cut set.
\<close>

definition isSpace :: "char \<Rightarrow> bool" where
  "isSpace c \<longleftrightarrow> c = CHR '' '' \<or> c = CHR 0x09 \<or> c = CHR 0x0D \<or> c = CHR 0x0A"

definition TrimRight :: "string \<Rightarrow> string" where
  "TrimRight s = rev (dropWhile isSpace (rev s))"

definition TrimLeft :: "string \<Rightarrow> string" where
  "TrimLeft s = dropWhile isSpace s"

subsection \<open>Packages fmt and path/filepath\<close>

text \<open>
  The verb \<^verbatim>\<open>%d\<close> prints an integer in decimal, with a minus sign when it is negative;
  \<open>Sprintf_s_d s d\<close> is \<^verbatim>\<open>fmt.Sprintf("%s:%d", s, d)\<close>, the only format string of the file
  that has two verbs.
\<close>

fun digits :: "nat \<Rightarrow> string" where
  "digits n = (if n < 10 then [''0123456789'' ! n] else digits (n div 10) @ [''0123456789'' ! (n mod 10)])"

declare digits.simps [simp del]

definition Itoa :: "int \<Rightarrow> string" where
  "Itoa i = (if i < 0 then CHR ''-'' # digits (nat (- i)) else digits (nat i))"

definition Sprintf_s_d :: "string \<Rightarrow> int \<Rightarrow> string" where
  "Sprintf_s_d s d = s @ '':'' @ Itoa d"

text \<open>
  \<^verbatim>\<open>filepath.Join\<close> on a Unix path: the elements from the first non-empty one on are joined
  with slashes and the result is cleaned (\<^verbatim>\<open>filepath.Clean\<close>: empty and \<^verbatim>\<open>.\<close> elements are
  dropped, a \<^verbatim>\<open>..\<close> removes the element before it, or is dropped at the root, or is kept at
  the front of a relative path; the empty result is \<^verbatim>\<open>.\<close>).
\<close>

fun Split :: "char \<Rightarrow> string \<Rightarrow> string list" where
  "Split sep [] = [[]]"
| "Split sep (c # cs) =
     (if c = sep then [] # Split sep cs
      else (case Split sep cs of [] \<Rightarrow> [[c]] | w # ws \<Rightarrow> (c # w) # ws))"

fun cleanElems :: "bool \<Rightarrow> string list \<Rightarrow> string list \<Rightarrow> string list" where
  "cleanElems rooted out [] = rev out"
| "cleanElems rooted out (e # es) =
     (if e = [] \<or> e = ''.'' then cleanElems rooted out es
      else if e = ''..'' then
        (case out of
           [] \<Rightarrow> cleanElems rooted (if rooted then [] else [''..'']) es
         | prev # out' \<Rightarrow>
             if prev = ''..'' then cleanElems rooted (''..'' # out) es
             else cleanElems rooted out' es)
      else cleanElems rooted (e # out) es)"

definition Clean :: "string \<Rightarrow> string" where
  "Clean path =
     (if path = [] then ''.''
      else let rooted = (hd path = CHR ''/'');
               out = Join (cleanElems rooted [] (Split (CHR ''/'') path)) ''/''
           in if rooted then CHR ''/'' # out
              else if out = [] then ''.'' else out)"

definition filepath_Join :: "string list \<Rightarrow> string" where
  "filepath_Join elem =
     (case dropWhile (\<lambda>e. e = []) elem of
        [] \<Rightarrow> []
      | es \<Rightarrow> Clean (Join es ''/''))"

subsection \<open>Package text/template: the lexer\<close>

text \<open>
  The lexer cuts the template text into items.  Outside the delimiters it looks for the
  next \<^verbatim>\<open>{{\<close>; a trim marker after the left delimiter (a minus sign followed by white
  space) removes the white space that ends the text before it, and one before the right
  delimiter (white space followed by a minus sign) removes the white space that starts the
  text after it.  A text item that is left empty is not emitted.  Inside an action the
  lexer emits a space item for a run of white space, a field item for \<^verbatim>\<open>.Name\<close>, a dot, a
  word for an identifier or keyword, and a string item for a quoted string.  Comments,
  numbers, variables, pipes, parentheses, character constants, raw strings, escapes inside
  quoted strings and characters outside ASCII are \<open>NotModelled\<close>.
\<close>

datatype item =
    itemText string
  | itemLeftDelim
  | itemRightDelim
  | itemSpace
  | itemWord string
  | itemField string
  | itemDot
  | itemString string
  | itemError goError
  | itemEOF

definition leftDelim :: string where
  "leftDelim = ''{{''"

definition rightDelim :: string where
  "rightDelim = ''}}''"

definition hasLeftTrimMarker :: "string \<Rightarrow> bool" where
  "hasLeftTrimMarker s = (case s of c # d # _ \<Rightarrow> c = CHR ''-'' \<and> isSpace d | _ \<Rightarrow> False)"

definition hasRightTrimMarker :: "string \<Rightarrow> bool" where
  "hasRightTrimMarker s = (case s of c # d # _ \<Rightarrow> isSpace c \<and> d = CHR ''-'' | _ \<Rightarrow> False)"

definition isDigit :: "char \<Rightarrow> bool" where
  "isDigit c \<longleftrightarrow> c \<in> set ''0123456789''"

definition isAlphaNumeric :: "char \<Rightarrow> bool" where
  "isAlphaNumeric c \<longleftrightarrow>
     c = CHR ''_'' \<or> isDigit c
     \<or> c \<in> set ''abcdefghijklmnopqrstuvwxyz'' \<or> c \<in> set ''ABCDEFGHIJKLMNOPQRSTUVWXYZ''"

definition nonASCII :: "char \<Rightarrow> bool" where
  "nonASCII c \<longleftrightarrow> digit7 c"

text \<open>
  \<open>atRightDelim s\<close> says whether \<open>s\<close> starts with the right delimiter, and whether a trim
  marker precedes it; \<open>atTerminator s\<close> whether a field or identifier may end in front of
  \<open>s\<close>.
\<close>

definition atRightDelim :: "string \<Rightarrow> bool \<times> bool" where
  "atRightDelim s =
     (if hasRightTrimMarker s \<and> prefix rightDelim (drop 2 s) then (True, True)
      else if prefix rightDelim s then (True, False)
      else (False, False))"

definition atTerminator :: "string \<Rightarrow> bool" where
  "atTerminator s =
     (case s of
        [] \<Rightarrow> True
      | c # _ \<Rightarrow> isSpace c \<or> c \<in> set ''.,|:)('' \<or> prefix rightDelim s)"

text \<open>
  The state functions \<^verbatim>\<open>lexText\<close>, \<^verbatim>\<open>lexLeftDelim\<close>, \<^verbatim>\<open>lexInsideAction\<close> (with the
  scanners for spaces, quoted strings, fields and identifiers that it calls) and
  \<^verbatim>\<open>lexRightDelim\<close> of Go's lexer are the four states of \<open>lex\<close>; its second argument is
  the input that is still to be read.
\<close>

datatype lexState = lexText | lexLeftDelim | lexInsideAction | lexRightDelim

function lex :: "lexState \<Rightarrow> string \<Rightarrow> item list" where
  "lex lexText s =
     (case Cut leftDelim s of
        None \<Rightarrow> (if s = [] then [itemEOF] else [itemText s, itemEOF])
      | Some (txt, rest) \<Rightarrow>
          (let txt' = (if hasLeftTrimMarker rest then TrimRight txt else txt)
           in (if txt' = [] then [] else [itemText txt']) @ lex lexLeftDelim rest))"
| "lex lexLeftDelim s =
     (let r = (if hasLeftTrimMarker s then drop 2 s else s)
      in if prefix ''/*'' r then [itemError NotModelled]
         else itemLeftDelim # lex lexInsideAction r)"
| "lex lexRightDelim s =
     (if snd (atRightDelim s)
      then itemRightDelim # lex lexText (TrimLeft (drop 4 s))
      else itemRightDelim # lex lexText (drop 2 s))"
| "lex lexInsideAction [] = [itemError ErrUnclosedAction]"
| "lex lexInsideAction (c # cs) =
     (if fst (atRightDelim (c # cs)) then lex lexRightDelim (c # cs)
      else if isSpace c then
        (let r = dropWhile isSpace cs;
             n = length (takeWhile isSpace cs)
         in if prefix (CHR ''-'' # rightDelim) r
            then (if n = 0 then lex lexRightDelim (c # r)
                  else itemSpace # lex lexRightDelim (last (takeWhile isSpace cs) # r))
            else itemSpace # lex lexInsideAction r)
      else if c = CHR 0x22 then
        (let q = takeWhile (\<lambda>d. d \<noteq> CHR 0x22 \<and> d \<noteq> CHR 0x0A \<and> d \<noteq> CHR 0x5C \<and> \<not> nonASCII d) cs;
             r = drop (length q) cs
         in case r of
              [] \<Rightarrow> [itemError ErrUnterminatedQuote]
            | d # r' \<Rightarrow>
                if d = CHR 0x22 then itemString q # lex lexInsideAction r'
                else if d = CHR 0x0A then [itemError ErrUnterminatedQuote]
                else [itemError NotModelled])
      else if c = CHR ''.'' then
        (if cs = [] \<or> isDigit (hd cs) then [itemError NotModelled]
         else if atTerminator cs then itemDot # lex lexInsideAction cs
         else
           (let w = takeWhile isAlphaNumeric cs;
                r = drop (length w) cs
            in if r \<noteq> [] \<and> nonASCII (hd r) then [itemError NotModelled]
               else if \<not> atTerminator r then [itemError ErrBadCharacter]
               else itemField w # lex lexInsideAction r))
      else if isAlphaNumeric c \<and> \<not> isDigit c then
        (let w = c # takeWhile isAlphaNumeric cs;
             r = drop (length w - 1) cs
         in if r \<noteq> [] \<and> nonASCII (hd r) then [itemError NotModelled]
            else if \<not> atTerminator r then [itemError ErrBadCharacter]
            else itemWord w # lex lexInsideAction r)
      else [itemError NotModelled])"
  by pat_completeness auto

termination lex
proof -
  have Cut_shorter: "length b + length sep \<le> length s" if "Cut sep s = Some (a, b)"
    for sep s a b
    using that
  proof (induction s arbitrary: a)
    case Nil
    then show ?case by (auto split: if_splits)
  next
    case (Cons c cs)
    show ?case
    proof (cases "prefix sep (c # cs)")
      case True
      then have "length sep \<le> length (c # cs)"
        by (rule prefix_length_le)
      moreover from True Cons.prems have "b = drop (length sep) (c # cs)"
        by auto
      ultimately show ?thesis by simp
    next
      case False
      with Cons.prems obtain a' where "Cut sep cs = Some (a', b)"
        by auto
      with Cons.IH [of a'] show ?thesis by simp
    qed
  qed
  show ?thesis
    apply (relation "measure (\<lambda>(st, s). 4 * length s +
         (case st of lexLeftDelim \<Rightarrow> 3 | lexInsideAction \<Rightarrow> 2 | lexRightDelim \<Rightarrow> 1 | lexText \<Rightarrow> 0))")
                apply simp
    subgoal for s x2 tx rest using Cut_shorter [of leftDelim s tx rest] by (simp add: leftDelim_def)
    subgoal by (simp split: if_splits)
    subgoal for s using length_dropWhile_le [of isSpace "drop 4 s"] by (simp add: TrimLeft_def)
    subgoal by simp
    subgoal by simp
    subgoal for c cs using length_dropWhile_le [of isSpace cs] by simp
    subgoal for c cs using length_dropWhile_le [of isSpace cs] by simp
    subgoal for c cs using length_dropWhile_le [of isSpace cs] by simp
    subgoal for c cs q r d r' by (cases "length q \<le> length cs") (auto dest!: arg_cong [where f = length])
    subgoal by simp
    subgoal for c cs w r by simp
    subgoal for c cs w r by simp
    done
qed

declare lex.simps [simp del]

subsection \<open>Package text/template: the parser\<close>

text \<open>
  A template body is a list of nodes: text, an action that prints a field chain of the
  data (the empty chain is the dot), a conditional on a field chain with its two branches,
  and the invocation of a named template on an optional field chain.  The templates known
  under a name are kept in an association list.
\<close>

datatype node =
    TextNode string
  | ActionNode "string list"
  | IfNode "string list" "node list" "node list"
  | TemplateNode string "string list option"

type_synonym treeSet = "(string \<times> node list) list"

text \<open>
  The parser reads the items in order.  \<open>segments\<close> groups them into text and whole
  actions, stopping at the first error item; \<open>classify\<close> reads one action, skipping spaces
  as the parser's \<^verbatim>\<open>nextNonSpace\<close> does, except inside a field chain, where
  \<^verbatim>\<open>.A.B\<close> is one chain and \<^verbatim>\<open>.A .B\<close> is not.
\<close>

datatype segment = segText string | segAction "item list" | segError goError | segEOF

fun segments :: "item list option \<Rightarrow> item list \<Rightarrow> segment list" where
  "segments None [] = [segError NotModelled]"
| "segments None (itemText t # r) = segText t # segments None r"
| "segments None (itemLeftDelim # r) = segments (Some []) r"
| "segments None (itemEOF # r) = [segEOF]"
| "segments None (itemError e # r) = [segError e]"
| "segments None (_ # r) = [segError NotModelled]"
| "segments (Some a) [] = [segError NotModelled]"
| "segments (Some a) (itemRightDelim # r) = segAction (rev a) # segments None r"
| "segments (Some a) (itemError e # r) = [segError e]"
| "segments (Some a) (i # r) = segments (Some (i # a)) r"

datatype action =
    actDefine string
  | actIf "string list"
  | actElse
  | actEnd
  | actTemplate string "string list option"
  | actPipeline "string list"
  | actNotModelled

definition skipSpace :: "item list \<Rightarrow> item list" where
  "skipSpace its = dropWhile (\<lambda>i. i = itemSpace) its"

fun fieldChain :: "item list \<Rightarrow> string list option" where
  "fieldChain [] = Some []"
| "fieldChain (itemField f # r) = map_option (Cons f) (fieldChain r)"
| "fieldChain (_ # r) = None"

definition pipeline :: "item list \<Rightarrow> string list option" where
  "pipeline its =
     (case skipSpace its of
        [] \<Rightarrow> None
      | itemDot # r \<Rightarrow> (if skipSpace r = [] then Some [] else None)
      | itemField f # r \<Rightarrow>
          (let ch = takeWhile (\<lambda>i. i \<noteq> itemSpace) (itemField f # r);
               r' = dropWhile (\<lambda>i. i \<noteq> itemSpace) (itemField f # r)
           in if skipSpace r' = [] then fieldChain ch else None)
      | _ \<Rightarrow> None)"

definition classify :: "item list \<Rightarrow> action" where
  "classify its =
     (case skipSpace its of
        itemWord w # r \<Rightarrow>
          (if w = ''define'' then
             (case skipSpace r of
                itemString n # r' \<Rightarrow> (if skipSpace r' = [] then actDefine n else actNotModelled)
              | _ \<Rightarrow> actNotModelled)
           else if w = ''if'' then
             (case pipeline r of Some ch \<Rightarrow> actIf ch | None \<Rightarrow> actNotModelled)
           else if w = ''else'' then (if skipSpace r = [] then actElse else actNotModelled)
           else if w = ''end'' then (if skipSpace r = [] then actEnd else actNotModelled)
           else if w = ''template'' then
             (case skipSpace r of
                itemString n # r' \<Rightarrow>
                  (if skipSpace r' = [] then actTemplate n None
                   else (case pipeline r' of Some ch \<Rightarrow> actTemplate n (Some ch)
                         | None \<Rightarrow> actNotModelled))
              | _ \<Rightarrow> actNotModelled)
           else actNotModelled)
      | r \<Rightarrow> (case pipeline r of Some ch \<Rightarrow> actPipeline ch | None \<Rightarrow> actNotModelled))"

text \<open>
  \<^verbatim>\<open>parse.IsEmptyTree\<close>: a body is empty when it consists of text nodes that are white space
  only.  \<^verbatim>\<open>bytes.TrimSpace\<close> decides that, and counts as white space the six ASCII space
  characters and the UTF-8 encodings of the Unicode spaces (\<open>isSpaceRunes\<close>).
\<close>

fun isSpaceRunes :: "string \<Rightarrow> bool" where
  "isSpaceRunes [] = True"
| "isSpaceRunes (c # cs) =
     (if c \<in> set [CHR 0x09, CHR 0x0A, CHR 0x0B, CHR 0x0C, CHR 0x0D, CHR 0x20] then isSpaceRunes cs
      else (case cs of
              [] \<Rightarrow> False
            | d # r \<Rightarrow>
                if c = CHR 0xC2 \<and> (d = CHR 0x85 \<or> d = CHR 0xA0) then isSpaceRunes r
                else (case r of
                        [] \<Rightarrow> False
                      | e # r' \<Rightarrow>
                          if [c, d, e] = [CHR 0xE1, CHR 0x9A, CHR 0x80]
                             \<or> ([c, d] = [CHR 0xE2, CHR 0x80]
                                 \<and> e \<in> set [CHR 0x80, CHR 0x81, CHR 0x82, CHR 0x83, CHR 0x84, CHR 0x85,
                                             CHR 0x86, CHR 0x87, CHR 0x88, CHR 0x89, CHR 0x8A,
                                             CHR 0xA8, CHR 0xA9, CHR 0xAF])
                             \<or> [c, d, e] = [CHR 0xE2, CHR 0x81, CHR 0x9F]
                             \<or> [c, d, e] = [CHR 0xE3, CHR 0x80, CHR 0x80]
                          then isSpaceRunes r' else False)))"

fun IsEmptyTree :: "node list \<Rightarrow> bool" where
  "IsEmptyTree [] = True"
| "IsEmptyTree (TextNode t # ns) = (isSpaceRunes t \<and> IsEmptyTree ns)"
| "IsEmptyTree (_ # ns) = False"

text \<open>
  \<^verbatim>\<open>Tree.add\<close> enters a parsed body under its name: a name that is new, or that so far has
  an empty body, takes the new body; a second non-empty body for a name is an error; an
  empty body does not replace a non-empty one.
\<close>

definition add :: "string \<Rightarrow> node list \<Rightarrow> treeSet \<Rightarrow> goError + treeSet" where
  "add name root ts =
     (case map_of ts name of
        None \<Rightarrow> Inr (AList.update name root ts)
      | Some old \<Rightarrow>
          if IsEmptyTree old then Inr (AList.update name root ts)
          else if \<not> IsEmptyTree root then Inl (ErrMultipleDefinition name)
          else Inr ts)"

text \<open>
  \<open>parse name ts st cur segs\<close> is the parser at the segments \<open>segs\<close>: \<open>ts\<close> holds the
  definitions closed so far, \<open>cur\<close> the nodes of the innermost open list (last node
  first), and \<open>st\<close> the open \<^verbatim>\<open>define\<close> and \<^verbatim>\<open>if\<close> clauses around it, each with the nodes
  of its enclosing list.  A \<^verbatim>\<open>define\<close> is read only at the top level, as in Go; an
  \<^verbatim>\<open>end\<close> or \<^verbatim>\<open>else\<close> with nothing open is Go's error \<^verbatim>\<open>unexpected {{end}}\<close>; the end of
  the input inside an open clause is \<^verbatim>\<open>unexpected EOF\<close>.  At the end of the input the top
  level list becomes the body of the template \<open>name\<close>.
\<close>

datatype frame = frameDefine string | frameIf "string list" | frameElse "string list" "node list"

fun parse :: "string \<Rightarrow> treeSet \<Rightarrow> (frame \<times> node list) list \<Rightarrow> node list \<Rightarrow> segment list
                \<Rightarrow> goError + treeSet" where
  "parse name ts st cur [] = Inl NotModelled"
| "parse name ts st cur (segEOF # _) =
     (if st = [] then add name (rev cur) ts else Inl ErrUnexpectedEOF)"
| "parse name ts st cur (segError e # _) = Inl e"
| "parse name ts st cur (segText t # r) = parse name ts st (TextNode t # cur) r"
| "parse name ts st cur (segAction a # r) =
     (case classify a of
        actPipeline ch \<Rightarrow> parse name ts st (ActionNode ch # cur) r
      | actTemplate n p \<Rightarrow> parse name ts st (TemplateNode n p # cur) r
      | actIf ch \<Rightarrow> parse name ts ((frameIf ch, cur) # st) [] r
      | actDefine n \<Rightarrow>
          (if st = [] then parse name ts [(frameDefine n, cur)] [] r else Inl NotModelled)
      | actElse \<Rightarrow>
          (case st of
             [] \<Rightarrow> Inl ErrUnexpectedElse
           | (frameIf ch, outer) # st' \<Rightarrow> parse name ts ((frameElse ch (rev cur), outer) # st') [] r
           | _ \<Rightarrow> Inl ErrUnexpectedElse)
      | actEnd \<Rightarrow>
          (case st of
             [] \<Rightarrow> Inl ErrUnexpectedEnd
           | (frameIf ch, outer) # st' \<Rightarrow> parse name ts st' (IfNode ch (rev cur) [] # outer) r
           | (frameElse ch th, outer) # st' \<Rightarrow> parse name ts st' (IfNode ch th (rev cur) # outer) r
           | (frameDefine n, outer) # st' \<Rightarrow>
               (case add n (rev cur) ts of
                  Inl e \<Rightarrow> Inl e
                | Inr ts' \<Rightarrow> parse name ts' st' outer r))
      | actNotModelled \<Rightarrow> Inl NotModelled)"

text \<open>\<^verbatim>\<open>parse.Parse(name, text, ...)\<close>: the bodies defined by a template text, by name.\<close>

definition parse_Parse :: "string \<Rightarrow> string \<Rightarrow> goError + treeSet" where
  "parse_Parse name text = parse name [] [] [] (segments None (lex lexText text))"

subsection \<open>Package text/template: execution\<close>

text \<open>
  The data a template is executed on, as far as the executor inspects it by reflection: a
  string, an integer, a pointer to a struct (\<open>None\<close> is the nil pointer; the struct is the
  list of its exported fields), and the invalid value of a template invoked without data.
\<close>

datatype val = VInvalid | VStr string | VInt int | VPtr "(string \<times> val) list option"

definition maxExecDepth :: nat where
  "maxExecDepth = 100000"

text \<open>
  \<^verbatim>\<open>evalField\<close>: a field of a nil pointer and a field the struct does not have are
  errors; a field of the invalid value is the invalid value.
\<close>

definition evalField :: "val \<Rightarrow> string \<Rightarrow> goError + val" where
  "evalField receiver fieldName =
     (case receiver of
        VInvalid \<Rightarrow> Inr VInvalid
      | VPtr None \<Rightarrow> Inl (ErrNilPointer fieldName)
      | VPtr (Some fields) \<Rightarrow>
          (case map_of fields fieldName of
             Some v \<Rightarrow> Inr v
           | None \<Rightarrow> Inl (ErrNoField fieldName))
      | _ \<Rightarrow> Inl (ErrNoField fieldName))"

fun evalFieldChain :: "val \<Rightarrow> string list \<Rightarrow> goError + val" where
  "evalFieldChain receiver [] = Inr receiver"
| "evalFieldChain receiver (f # fs) =
     (case evalField receiver f of Inl e \<Rightarrow> Inl e | Inr v \<Rightarrow> evalFieldChain v fs)"

text \<open>
  \<^verbatim>\<open>isTrue\<close>: the truth of a value in \<^verbatim>\<open>if\<close> (a non-empty string, a non-zero integer, a
  non-nil pointer).  \<^verbatim>\<open>printValue\<close>: what an action writes; printing a pointer is not
  modelled.
\<close>

fun isTrue :: "val \<Rightarrow> bool" where
  "isTrue VInvalid = False"
| "isTrue (VStr s) = (s \<noteq> [])"
| "isTrue (VInt i) = (i \<noteq> 0)"
| "isTrue (VPtr p) = (p \<noteq> None)"

fun printValue :: "val \<Rightarrow> goError + string" where
  "printValue VInvalid = Inr ''<no value>''"
| "printValue (VStr s) = Inr s"
| "printValue (VInt i) = Inr (Itoa i)"
| "printValue (VPtr p) = Inl NotModelled"

text \<open>
  \<^verbatim>\<open>state.walk\<close>.  The first error ends the execution; otherwise the output of a list is
  the outputs of its nodes in order.  A template invocation looks the name up, refuses to
  nest deeper than \<open>maxExecDepth\<close>, and executes the named body on the value of its
  pipeline.
\<close>

function walk :: "treeSet \<Rightarrow> nat \<Rightarrow> val \<Rightarrow> node \<Rightarrow> goError + string"
  and walkList :: "treeSet \<Rightarrow> nat \<Rightarrow> val \<Rightarrow> node list \<Rightarrow> goError + string" where
  "walk ts depth dot (TextNode t) = Inr t"
| "walk ts depth dot (ActionNode ch) =
     (case evalFieldChain dot ch of Inl e \<Rightarrow> Inl e | Inr v \<Rightarrow> printValue v)"
| "walk ts depth dot (IfNode ch list elseList) =
     (case evalFieldChain dot ch of
        Inl e \<Rightarrow> Inl e
      | Inr v \<Rightarrow> if isTrue v then walkList ts depth dot list else walkList ts depth dot elseList)"
| "walk ts depth dot (TemplateNode name pipe) =
     (case map_of ts name of
        None \<Rightarrow> Inl (ErrTemplateNotDefined name)
      | Some root \<Rightarrow>
          if maxExecDepth \<le> depth then Inl ErrMaxDepth
          else (case (case pipe of None \<Rightarrow> Inr VInvalid | Some ch \<Rightarrow> evalFieldChain dot ch) of
                  Inl e \<Rightarrow> Inl e
                | Inr v \<Rightarrow> walkList ts (Suc depth) v root))"
| "walkList ts depth dot [] = Inr []"
| "walkList ts depth dot (n # ns) =
     (case walk ts depth dot n of
        Inl e \<Rightarrow> Inl e
      | Inr a \<Rightarrow> (case walkList ts depth dot ns of Inl e \<Rightarrow> Inl e | Inr b \<Rightarrow> Inr (a @ b)))"
  by pat_completeness auto

termination
  by (relation "inv_image (less_than <*lex*> less_than)
        (\<lambda>x. case x of
           Inl (ts, depth, dot, n) \<Rightarrow> (maxExecDepth - depth, size n)
         | Inr (ts, depth, dot, ns) \<Rightarrow> (maxExecDepth - depth, size_list size ns))")
     auto

text \<open>
  A \<^verbatim>\<open>*template.Template\<close> is its name together with the bodies known to it.
  \<^verbatim>\<open>Template.Parse\<close> parses a text and associates every body it defines
  (\<^verbatim>\<open>AddParseTree\<close>: an empty body does not replace an existing one);
  \<^verbatim>\<open>template.Must\<close> panics when the parse failed; \<^verbatim>\<open>Template.Execute\<close> runs the body
  carrying the template's own name.
\<close>

type_synonym template = "string \<times> treeSet"

definition template_New :: "string \<Rightarrow> template" where
  "template_New name = (name, [])"

definition AddParseTree :: "string \<times> node list \<Rightarrow> treeSet \<Rightarrow> treeSet" where
  "AddParseTree nt tmpl =
     (case map_of tmpl (fst nt) of
        None \<Rightarrow> AList.update (fst nt) (snd nt) tmpl
      | Some old \<Rightarrow> if IsEmptyTree (snd nt) then tmpl else AList.update (fst nt) (snd nt) tmpl)"

definition Parse :: "template \<Rightarrow> string \<Rightarrow> goError + template" where
  "Parse t text =
     (case parse_Parse (fst t) text of
        Inl e \<Rightarrow> Inl e
      | Inr trees \<Rightarrow> Inr (fst t, fold AddParseTree trees (snd t)))"

definition Must :: "goError + template \<Rightarrow> template result" where
  "Must r = (case r of Inl e \<Rightarrow> Panic e | Inr t \<Rightarrow> Return t)"

definition Execute :: "template \<Rightarrow> val \<Rightarrow> goError + string" where
  "Execute t data =
     (case map_of (snd t) (fst t) of
        None \<Rightarrow> Inl ErrIncompleteTemplate
      | Some root \<Rightarrow> walkList (snd t) 0 data root)"

subsection \<open>What the file takes from the rest of the repository\<close>

text \<open>
  The file uses declarations of other packages and files of the repository that are not
  part of the sources at hand.  They are parameters of the model, collected in one record:
  the name builders \<^verbatim>\<open>controller.PDMemberName\<close> and \<^verbatim>\<open>controller.TiKVPeerMemberName\<close>, the
  port constants and the feature flag of \<^verbatim>\<open>v1alpha1\<close>, the mount path of \<^verbatim>\<open>constants\<close>,
  and the three script constants \<^verbatim>\<open>componentCommonScript\<close>, \<^verbatim>\<open>dnsAwaitPart\<close> and
  \<^verbatim>\<open>componentCommonWaitForDnsIpMatchScript\<close> of the package itself.
\<close>

record env =
  PDMemberName :: "string \<Rightarrow> string"
  TiKVPeerMemberName :: "string \<Rightarrow> string"
  DefaultPDClientPort :: int
  DefaultTiKVServerPort :: int
  DefaultTiKVStatusPort :: int
  TiKVDataVolumeMountPath :: string
  StartScriptV2FeatureFlagWaitForDnsNameIpMatch :: string
  componentCommonScript :: string
  dnsAwaitPart :: string
  componentCommonWaitForDnsIpMatchScript :: string

text \<open>
  Of the cluster object \<^verbatim>\<open>tc *v1alpha1.TidbCluster\<close> the renderer reads the fields and
  method results below, and nothing else.  \<open>tc_AcrossK8s\<close>, \<open>tc_Heterogeneous\<close>,
  \<open>tc_WithoutLocalPD\<close> and \<open>tc_PDStartTimeout\<close> are the results of the methods of these
  names; \<open>Spec_Cluster_Name\<close> is \<^verbatim>\<open>tc.Spec.Cluster.Name\<close> and \<open>Spec_TiKV_DataSubDir\<close> is
  \<^verbatim>\<open>tc.Spec.TiKV.DataSubDir\<close>; the optional boolean is the pointer
  \<^verbatim>\<open>tc.Spec.EnableDynamicConfiguration\<close>.  The record stands for a cluster object on which
  these reads succeed: the pointers \<^verbatim>\<open>tc\<close> and \<^verbatim>\<open>tc.Spec.TiKV\<close> are not nil (the renderer
  dereferences them without a check, and a nil pointer there is a run-time panic before
  any template is parsed), and \<^verbatim>\<open>tc.Spec.Cluster\<close> is not nil where it is read.
\<close>

record TidbCluster =
  tc_Name :: string
  tc_Namespace :: string
  tc_AcrossK8s :: bool
  tc_Heterogeneous :: bool
  tc_WithoutLocalPD :: bool
  tc_PDStartTimeout :: int
  Spec_Cluster_Name :: string
  Spec_PreferIPv6 :: bool
  Spec_ClusterDomain :: string
  Spec_TiKV_DataSubDir :: string
  Spec_EnableDynamicConfiguration :: "bool option"
  Spec_StartScriptV2FeatureFlags :: "string list"

subsection \<open>The model of the start script\<close>

text \<open>
  \<^verbatim>\<open>AcrossK8sScriptModel\<close> is declared in another file of the package; the renderer sets
  its fields \<^verbatim>\<open>PDAddr\<close> and \<^verbatim>\<open>DiscoveryAddr\<close>, and the subscript reads them.
\<close>

record AcrossK8sScriptModel =
  AcrossK8s_PDAddr :: string
  AcrossK8s_DiscoveryAddr :: string

record TiKVStartScriptModel =
  PDAddr :: string
  Addr :: string
  StatusAddr :: string
  AdvertiseHost :: string
  AdvertiseAddr :: string
  DataDir :: string
  Capacity :: string
  ExtraArgs :: string
  KVStartTimeout :: int
  AcrossK8s :: "AcrossK8sScriptModel option"

text \<open>
  The first part of \<^verbatim>\<open>RenderTiKVStartScript\<close> computes the model \<^verbatim>\<open>m\<close>.  Its local
  variables \<^verbatim>\<open>listenHost\<close>, \<^verbatim>\<open>advertiseHost\<close> and \<^verbatim>\<open>extraArgs\<close> are functions of the
  cluster object here, and \<open>model\<close> is the value of \<^verbatim>\<open>m\<close> when the template is executed.
\<close>

definition listenHost :: "TidbCluster \<Rightarrow> string" where
  "listenHost tc = (if Spec_PreferIPv6 tc then ''[::]'' else ''0.0.0.0'')"

definition advertiseHost :: "env \<Rightarrow> TidbCluster \<Rightarrow> string" where
  "advertiseHost E tc =
     (let h = ''${TIKV_POD_NAME}.'' @ TiKVPeerMemberName E (tc_Name tc) @ ''.'' @ tc_Namespace tc @ ''.svc''
      in if Spec_ClusterDomain tc \<noteq> [] then h @ ''.'' @ Spec_ClusterDomain tc else h)"

definition extraArgs :: "env \<Rightarrow> TidbCluster \<Rightarrow> string list" where
  "extraArgs E tc =
     (if Spec_EnableDynamicConfiguration tc = Some True
      then
        (let a = ''${TIKV_POD_NAME}.'' @ TiKVPeerMemberName E (tc_Name tc) @ ''.'' @ tc_Namespace tc @ ''.svc'';
             advertiseStatusAddr = (if Spec_ClusterDomain tc \<noteq> [] then a @ ''.'' @ Spec_ClusterDomain tc else a)
         in [] @ [''--advertise-status-addr='' @ Sprintf_s_d advertiseStatusAddr (DefaultTiKVStatusPort E)])
      else [])"

definition model :: "env \<Rightarrow> TidbCluster \<Rightarrow> TiKVStartScriptModel" where
  "model E tc =
     \<lparr> PDAddr =
         (if tc_AcrossK8s tc then ''${result}''
          else if tc_Heterogeneous tc \<and> tc_WithoutLocalPD tc
          then Sprintf_s_d (PDMemberName E (Spec_Cluster_Name tc)) (DefaultPDClientPort E)
          else Sprintf_s_d (PDMemberName E (tc_Name tc)) (DefaultPDClientPort E)),
       Addr = Sprintf_s_d (listenHost tc) (DefaultTiKVServerPort E),
       StatusAddr = Sprintf_s_d (listenHost tc) (DefaultTiKVStatusPort E),
       AdvertiseHost = advertiseHost E tc,
       AdvertiseAddr = Sprintf_s_d (advertiseHost E tc) (DefaultTiKVServerPort E),
       DataDir = filepath_Join [TiKVDataVolumeMountPath E, Spec_TiKV_DataSubDir tc],
       Capacity = ''${CAPACITY}'',
       ExtraArgs = (if 0 < length (extraArgs E tc) then Join (extraArgs E tc) '' '' else []),
       KVStartTimeout = tc_PDStartTimeout tc,
       AcrossK8s =
         (if tc_AcrossK8s tc
          then Some \<lparr> AcrossK8s_PDAddr = Sprintf_s_d (PDMemberName E (tc_Name tc)) (DefaultPDClientPort E),
                      AcrossK8s_DiscoveryAddr = tc_Name tc @ ''-discovery.'' @ tc_Namespace tc @ '':10261'' \<rparr>
          else None) \<rparr>"

definition waitForDnsNameIpMatchOnStartup :: "env \<Rightarrow> TidbCluster \<Rightarrow> bool" where
  "waitForDnsNameIpMatchOnStartup E tc \<longleftrightarrow>
     StartScriptV2FeatureFlagWaitForDnsNameIpMatch E \<in> set (Spec_StartScriptV2FeatureFlags tc)"

text \<open>
  The model as the template executor sees it: a pointer to a struct with the ten fields,
  the last of them a pointer that is nil unless the cluster spans Kubernetes clusters.
\<close>

definition modelValue :: "TiKVStartScriptModel \<Rightarrow> val" where
  "modelValue m =
     VPtr (Some
       [(''PDAddr'', VStr (PDAddr m)),
        (''Addr'', VStr (Addr m)),
        (''StatusAddr'', VStr (StatusAddr m)),
        (''AdvertiseHost'', VStr (AdvertiseHost m)),
        (''AdvertiseAddr'', VStr (AdvertiseAddr m)),
        (''DataDir'', VStr (DataDir m)),
        (''Capacity'', VStr (Capacity m)),
        (''ExtraArgs'', VStr (ExtraArgs m)),
        (''KVStartTimeout'', VInt (KVStartTimeout m)),
        (''AcrossK8s'',
           VPtr (map_option
                   (\<lambda>a. [(''PDAddr'', VStr (AcrossK8s_PDAddr a)),
                         (''DiscoveryAddr'', VStr (AcrossK8s_DiscoveryAddr a))])
                   (AcrossK8s m)))])"

subsection \<open>The script templates\<close>

text \<open>
  The constants of the file, character for character.  \<^verbatim>\<open>tikvStartScript\<close> is the
  concatenation of a first literal, \<^verbatim>\<open>dnsAwaitPart\<close> and a second literal; the two
  literals are \<open>tikvStartScript_head\<close> and \<open>tikvStartScript_tail\<close>.
  \<^verbatim>\<open>tikvWaitForDnsIpMatchSubScript\<close> is a literal followed by
  \<^verbatim>\<open>componentCommonWaitForDnsIpMatchScript\<close>.
\<close>

definition tikvStartSubScript :: string where
  \<open>tikvStartSubScript =
     ''\<newline>'' @
     ''{{ define "AcrossK8sSubscript" }}\<newline>'' @
     ''pd_url={{ .AcrossK8s.PDAddr }}\<newline>'' @
     ''encoded_domain_url=$(echo $pd_url | base64 | tr "'' @ [CHR 0x5C] @ ''n" " " | sed "s/ //g")\<newline>'' @
     ''discovery_url={{ .AcrossK8s.DiscoveryAddr }}\<newline>'' @
     ''until result=$(wget -qO- -T 3 http://${discovery_url}/verify/${encoded_domain_url} 2>/dev/null | sed 's/http:'' @ [CHR 0x5C] @ ''/'' @ [CHR 0x5C] @ ''///g'); do\<newline>'' @
     ''    echo "waiting for the verification of PD endpoints ..."\<newline>'' @
     ''    sleep $((RANDOM % 5))\<newline>'' @
     ''done\<newline>'' @
     ''{{- end }}\<newline>''\<close>

definition tikvWaitForDnsIpMatchSubScript_lit :: string where
  \<open>tikvWaitForDnsIpMatchSubScript_lit =
     ''\<newline>'' @
     ''componentDomain={{ .AdvertiseHost }}\<newline>'' @
     ''waitThreshold={{ .KVStartTimeout }}\<newline>'' @
     ''nsLookupCmd="getent ahosts $componentDomain | sed -n 's/ *STREAM.*//p'"\<newline>''\<close>

definition tikvWaitForDnsIpMatchSubScript :: "env \<Rightarrow> string" where
  "tikvWaitForDnsIpMatchSubScript E =
     tikvWaitForDnsIpMatchSubScript_lit @ componentCommonWaitForDnsIpMatchScript E"

definition tikvWaitForDnsOnlySubScript :: string where
  "tikvWaitForDnsOnlySubScript = []"

definition tikvStartScript_head :: string where
  \<open>tikvStartScript_head =
     ''\<newline>'' @
     ''TIKV_POD_NAME=${POD_NAME:-$HOSTNAME}''\<close>

definition tikvStartScript_tail :: string where
  \<open>tikvStartScript_tail =
     ''\<newline>'' @
     ''{{- if .AcrossK8s -}} {{ template "AcrossK8sSubscript" . }} {{- end }}\<newline>'' @
     ''\<newline>'' @
     ''ARGS="--pd={{ .PDAddr }} '' @ [CHR 0x5C] @ ''\<newline>'' @
     ''--advertise-addr={{ .AdvertiseAddr }} '' @ [CHR 0x5C] @ ''\<newline>'' @
     ''--addr={{ .Addr }} '' @ [CHR 0x5C] @ ''\<newline>'' @
     ''--status-addr={{ .StatusAddr }} '' @ [CHR 0x5C] @ ''\<newline>'' @
     ''--data-dir={{ .DataDir }} '' @ [CHR 0x5C] @ ''\<newline>'' @
     ''--capacity={{ .Capacity }} '' @ [CHR 0x5C] @ ''\<newline>'' @
     ''--config=/etc/tikv/tikv.toml"\<newline>'' @
     ''{{- if .ExtraArgs }}\<newline>'' @
     ''ARGS="${ARGS} {{ .ExtraArgs }}"\<newline>'' @
     ''{{- end }}\<newline>'' @
     ''\<newline>'' @
     ''if [ ! -z "${STORE_LABELS:-}" ]; then\<newline>'' @
     ''  LABELS="--labels ${STORE_LABELS} "\<newline>'' @
     ''  ARGS="${ARGS}${LABELS}"\<newline>'' @
     ''fi\<newline>'' @
     ''\<newline>'' @
     ''echo "starting tikv-server ..."\<newline>'' @
     ''echo "/tikv-server ${ARGS}"\<newline>'' @
     ''exec /tikv-server ${ARGS}\<newline>''\<close>

definition tikvStartScript :: "env \<Rightarrow> string" where
  "tikvStartScript E = tikvStartScript_head @ dnsAwaitPart E @ tikvStartScript_tail"

definition replaceTikvStartScriptDnsAwaitPart :: "env \<Rightarrow> string \<Rightarrow> bool \<Rightarrow> string" where
  "replaceTikvStartScriptDnsAwaitPart E startScript withLocalIpMatch =
     (if withLocalIpMatch
      then ReplaceAll startScript (dnsAwaitPart E) (tikvWaitForDnsIpMatchSubScript E)
      else ReplaceAll startScript (dnsAwaitPart E) tikvWaitForDnsOnlySubScript)"

subsection \<open>Rendering\<close>

text \<open>
  Modelled from the spec: \<^verbatim>\<open>renderTemplateFunc\<close>, a helper of the package that is defined
  in another file.  The specification says that a composition failure aborts the render
  call and is surfaced verbatim to the caller, that there is no retry or partial result,
  and that a half-composed script must never be returned: the helper executes the template
  on the model and returns the output with no error, or the empty string with the error
  of the execution.
\<close>

definition renderTemplateFunc :: "template \<Rightarrow> TiKVStartScriptModel \<Rightarrow> string \<times> goError option" where
  "renderTemplateFunc tpl m =
     (case Execute tpl (modelValue m) of
        Inl err \<Rightarrow> ([], Some err)
      | Inr out \<Rightarrow> (out, None))"

text \<open>
  \<^verbatim>\<open>RenderTiKVStartScript\<close> returns a string and an error, unless one of its two
  \<^verbatim>\<open>template.Must\<close> calls panics.
\<close>

definition RenderTiKVStartScript :: "env \<Rightarrow> TidbCluster \<Rightarrow> (string \<times> goError option) result" where
  "RenderTiKVStartScript E tc =
     (let m = model E tc;
          w = waitForDnsNameIpMatchOnStartup E tc
      in case Must (Parse (template_New ''tikv-start-script'') tikvStartSubScript) of
           Panic e \<Rightarrow> Panic e
         | Return t \<Rightarrow>
             (case Must (Parse t (componentCommonScript E
                                   @ replaceTikvStartScriptDnsAwaitPart E (tikvStartScript E) w)) of
                Panic e \<Rightarrow> Panic e
              | Return tikvStartScriptTpl \<Rightarrow> Return (renderTemplateFunc tikvStartScriptTpl m)))"

subsection \<open>The rendered script, written out\<close>

text \<open>
  The text that the renderer is shown below to produce, in the order of the script: the
  shared fragment, the line that sets \<^verbatim>\<open>TIKV_POD_NAME\<close>, the block that waits for the DNS
  name (when the feature flag asks for it), the block that polls the discovery service
  (when the cluster spans Kubernetes clusters), the assembly of \<^verbatim>\<open>ARGS\<close>, the line that
  appends the extra arguments (when there are any) and the end of the script.  These
  definitions state the result; the theorem \<open>render_shape\<close> derives it from the templates.
\<close>

definition discoveryLoop :: string where
  \<open>discoveryLoop =
       ''\<newline>'' @
       ''until result=$(wget -qO- -T 3 http://${discovery_url}/verify/${encoded_domain_url} 2>/dev/null | sed 's/http:'' @ [CHR 0x5C] @ ''/'' @ [CHR 0x5C] @ ''///g'); do\<newline>'' @
       ''    echo "waiting for the verification of PD endpoints ..."\<newline>'' @
       ''    sleep $((RANDOM % 5))\<newline>'' @
       ''done''\<close>

definition discoveryBlock :: "string \<Rightarrow> string \<Rightarrow> string" where
  \<open>discoveryBlock pd disc =
       ''\<newline>'' @
       ''pd_url='' @ pd @
       ''\<newline>'' @
       ''encoded_domain_url=$(echo $pd_url | base64 | tr "'' @ [CHR 0x5C] @ ''n" " " | sed "s/ //g")\<newline>'' @
       ''discovery_url='' @ disc @ discoveryLoop\<close>

definition nsLookupCmd :: string where
  \<open>nsLookupCmd =
       ''\<newline>'' @
       ''nsLookupCmd="getent ahosts $componentDomain | sed -n 's/ *STREAM.*//p'"\<newline>''\<close>

definition dnsAwaitBlock :: "env \<Rightarrow> TiKVStartScriptModel \<Rightarrow> string" where
  \<open>dnsAwaitBlock E m =
       ''\<newline>'' @
       ''componentDomain='' @ AdvertiseHost m @
       ''\<newline>'' @
       ''waitThreshold='' @ Itoa (KVStartTimeout m) @
       TrimRight (nsLookupCmd @ componentCommonWaitForDnsIpMatchScript E @ ''\<newline>'')\<close>

definition argsBlock :: "TiKVStartScriptModel \<Rightarrow> string" where
  \<open>argsBlock m =
       ''\<newline>'' @
       ''\<newline>'' @
       ''ARGS="--pd='' @ PDAddr m @
       '' '' @ [CHR 0x5C] @ ''\<newline>'' @
       ''--advertise-addr='' @ AdvertiseAddr m @
       '' '' @ [CHR 0x5C] @ ''\<newline>'' @
       ''--addr='' @ Addr m @
       '' '' @ [CHR 0x5C] @ ''\<newline>'' @
       ''--status-addr='' @ StatusAddr m @
       '' '' @ [CHR 0x5C] @ ''\<newline>'' @
       ''--data-dir='' @ DataDir m @
       '' '' @ [CHR 0x5C] @ ''\<newline>'' @
       ''--capacity='' @ Capacity m @
       '' '' @ [CHR 0x5C] @ ''\<newline>'' @
       ''--config=/etc/tikv/tikv.toml"''\<close>

definition extraArgsLine :: "TiKVStartScriptModel \<Rightarrow> string" where
  \<open>extraArgsLine m =
     (if ExtraArgs m \<noteq> [] then ''\<newline>'' @
       ''ARGS="${ARGS} '' @ ExtraArgs m @ ''"'' else [])\<close>

definition scriptEnd :: string where
  \<open>scriptEnd =
       ''\<newline>'' @
       ''\<newline>'' @
       ''if [ ! -z "${STORE_LABELS:-}" ]; then\<newline>'' @
       ''  LABELS="--labels ${STORE_LABELS} "\<newline>'' @
       ''  ARGS="${ARGS}${LABELS}"\<newline>'' @
       ''fi\<newline>'' @
       ''\<newline>'' @
       ''echo "starting tikv-server ..."\<newline>'' @
       ''echo "/tikv-server ${ARGS}"\<newline>'' @
       ''exec /tikv-server ${ARGS}\<newline>''\<close>

definition script :: "env \<Rightarrow> TiKVStartScriptModel \<Rightarrow> bool \<Rightarrow> string" where
  \<open>script E m w =
     componentCommonScript E @ tikvStartScript_head @
     (if w then dnsAwaitBlock E m else []) @
     (case AcrossK8s m of
        None \<Rightarrow> []
      | Some a \<Rightarrow> discoveryBlock (AcrossK8s_PDAddr a) (AcrossK8s_DiscoveryAddr a)) @
     argsBlock m @ extraArgsLine m @ scriptEnd\<close>

text \<open>
  The named body and the body of the main template that the two template texts parse to,
  the latter in two parts: \<open>headTree\<close> depends on the shared fragments and on the feature
  flag, \<open>tailTree\<close> comes from \<open>tikvStartScript_tail\<close> alone.  \<open>tailRest\<close> is that literal
  after its first left delimiter, and \<open>tailItems\<close> the items the lexer makes of it.
\<close>

definition AcrossK8sSubscript :: "node list" where
  \<open>AcrossK8sSubscript =
     [TextNode (''\<newline>'' @
       ''pd_url=''),
      ActionNode [''AcrossK8s'', ''PDAddr''],
      TextNode (''\<newline>'' @
                ''encoded_domain_url=$(echo $pd_url | base64 | tr "'' @ [CHR 0x5C] @ ''n" " " | sed "s/ //g")\<newline>'' @
                ''discovery_url=''),
      ActionNode [''AcrossK8s'', ''DiscoveryAddr''],
      TextNode discoveryLoop]\<close>

definition tailTree :: "node list" where
  \<open>tailTree =
     [IfNode [''AcrossK8s''] [TemplateNode ''AcrossK8sSubscript'' (Some [])] [],
      TextNode (''\<newline>'' @
                ''\<newline>'' @
                ''ARGS="--pd=''),
      ActionNode [''PDAddr''],
      TextNode ('' '' @ [CHR 0x5C] @ ''\<newline>'' @
                ''--advertise-addr=''),
      ActionNode [''AdvertiseAddr''],
      TextNode ('' '' @ [CHR 0x5C] @ ''\<newline>'' @
                ''--addr=''),
      ActionNode [''Addr''],
      TextNode ('' '' @ [CHR 0x5C] @ ''\<newline>'' @
                ''--status-addr=''),
      ActionNode [''StatusAddr''],
      TextNode ('' '' @ [CHR 0x5C] @ ''\<newline>'' @
                ''--data-dir=''),
      ActionNode [''DataDir''],
      TextNode ('' '' @ [CHR 0x5C] @ ''\<newline>'' @
                ''--capacity=''),
      ActionNode [''Capacity''],
      TextNode ('' '' @ [CHR 0x5C] @ ''\<newline>'' @
                ''--config=/etc/tikv/tikv.toml"''),
      IfNode [''ExtraArgs'']
        [TextNode (''\<newline>'' @
                ''ARGS="${ARGS} ''), ActionNode [''ExtraArgs''], TextNode (''"'')] [],
      TextNode scriptEnd]\<close>

definition headTree :: "env \<Rightarrow> bool \<Rightarrow> node list" where
  \<open>headTree E w =
     (if w
      then [TextNode (componentCommonScript E @ tikvStartScript_head @ ''\<newline>'' @
       ''componentDomain=''),
            ActionNode [''AdvertiseHost''],
            TextNode (''\<newline>'' @
       ''waitThreshold=''),
            ActionNode [''KVStartTimeout''],
            TextNode (TrimRight (nsLookupCmd @ componentCommonWaitForDnsIpMatchScript E @ ''\<newline>''))]
      else [TextNode (componentCommonScript E @ tikvStartScript_head)])\<close>

definition tailRest :: string where
  \<open>tailRest =
       ''- if .AcrossK8s -}} {{ template "AcrossK8sSubscript" . }} {{- end }}\<newline>'' @
       ''\<newline>'' @
       ''ARGS="--pd={{ .PDAddr }} '' @ [CHR 0x5C] @ ''\<newline>'' @
       ''--advertise-addr={{ .AdvertiseAddr }} '' @ [CHR 0x5C] @ ''\<newline>'' @
       ''--addr={{ .Addr }} '' @ [CHR 0x5C] @ ''\<newline>'' @
       ''--status-addr={{ .StatusAddr }} '' @ [CHR 0x5C] @ ''\<newline>'' @
       ''--data-dir={{ .DataDir }} '' @ [CHR 0x5C] @ ''\<newline>'' @
       ''--capacity={{ .Capacity }} '' @ [CHR 0x5C] @ ''\<newline>'' @
       ''--config=/etc/tikv/tikv.toml"\<newline>'' @
       ''{{- if .ExtraArgs }}\<newline>'' @
       ''ARGS="${ARGS} {{ .ExtraArgs }}"\<newline>'' @
       ''{{- end }}\<newline>'' @
       ''\<newline>'' @
       ''if [ ! -z "${STORE_LABELS:-}" ]; then\<newline>'' @
       ''  LABELS="--labels ${STORE_LABELS} "\<newline>'' @
       ''  ARGS="${ARGS}${LABELS}"\<newline>'' @
       ''fi\<newline>'' @
       ''\<newline>'' @
       ''echo "starting tikv-server ..."\<newline>'' @
       ''echo "/tikv-server ${ARGS}"\<newline>'' @
       ''exec /tikv-server ${ARGS}\<newline>''\<close>

definition tailItems :: "item list" where
  \<open>tailItems =
     [itemLeftDelim,
      itemWord ''if'',
      itemSpace,
      itemField ''AcrossK8s'',
      itemRightDelim,
      itemLeftDelim,
      itemSpace,
      itemWord ''template'',
      itemSpace,
      itemString ''AcrossK8sSubscript'',
      itemSpace,
      itemDot,
      itemSpace,
      itemRightDelim,
      itemLeftDelim,
      itemWord ''end'',
      itemSpace,
      itemRightDelim,
      itemText (''\<newline>'' @
                ''\<newline>'' @
                ''ARGS="--pd=''),
      itemLeftDelim,
      itemSpace,
      itemField ''PDAddr'',
      itemSpace,
      itemRightDelim,
      itemText ('' '' @ [CHR 0x5C] @ ''\<newline>'' @
                ''--advertise-addr=''),
      itemLeftDelim,
      itemSpace,
      itemField ''AdvertiseAddr'',
      itemSpace,
      itemRightDelim,
      itemText ('' '' @ [CHR 0x5C] @ ''\<newline>'' @
                ''--addr=''),
      itemLeftDelim,
      itemSpace,
      itemField ''Addr'',
      itemSpace,
      itemRightDelim,
      itemText ('' '' @ [CHR 0x5C] @ ''\<newline>'' @
                ''--status-addr=''),
      itemLeftDelim,
      itemSpace,
      itemField ''StatusAddr'',
      itemSpace,
      itemRightDelim,
      itemText ('' '' @ [CHR 0x5C] @ ''\<newline>'' @
                ''--data-dir=''),
      itemLeftDelim,
      itemSpace,
      itemField ''DataDir'',
      itemSpace,
      itemRightDelim,
      itemText ('' '' @ [CHR 0x5C] @ ''\<newline>'' @
                ''--capacity=''),
      itemLeftDelim,
      itemSpace,
      itemField ''Capacity'',
      itemSpace,
      itemRightDelim,
      itemText ('' '' @ [CHR 0x5C] @ ''\<newline>'' @
                ''--config=/etc/tikv/tikv.toml"''),
      itemLeftDelim,
      itemWord ''if'',
      itemSpace,
      itemField ''ExtraArgs'',
      itemSpace,
      itemRightDelim,
      itemText (''\<newline>'' @
                ''ARGS="${ARGS} ''),
      itemLeftDelim,
      itemSpace,
      itemField ''ExtraArgs'',
      itemSpace,
      itemRightDelim,
      itemText (''"''),
      itemLeftDelim,
      itemWord ''end'',
      itemSpace,
      itemRightDelim,
      itemText (''\<newline>'' @
                ''\<newline>'' @
                ''if [ ! -z "${STORE_LABELS:-}" ]; then\<newline>'' @
                ''  LABELS="--labels ${STORE_LABELS} "\<newline>'' @
                ''  ARGS="${ARGS}${LABELS}"\<newline>'' @
                ''fi\<newline>'' @
                ''\<newline>'' @
                ''echo "starting tikv-server ..."\<newline>'' @
                ''echo "/tikv-server ${ARGS}"\<newline>'' @
                ''exec /tikv-server ${ARGS}\<newline>''),
      itemEOF]\<close>

subsection \<open>Well-formed fragments\<close>

text \<open>
  The three script constants that are not part of the sources are arbitrary strings in
  the model.  The results on the rendered text hold for fragments that are plain text,
  that is, contain no left delimiter of the template language, and for a placeholder
  \<^verbatim>\<open>dnsAwaitPart\<close> that is not empty and begins with a character that the two literals of
  \<^verbatim>\<open>tikvStartScript\<close> do not use, so that \<^verbatim>\<open>strings.ReplaceAll\<close> finds it where it was
  spliced in and nowhere else.
\<close>

definition plainText :: "string \<Rightarrow> bool" where
  "plainText s \<longleftrightarrow> \<not> sublist leftDelim s"

definition wellFormedFragments :: "env \<Rightarrow> bool" where
  "wellFormedFragments E \<longleftrightarrow>
     plainText (componentCommonScript E)
     \<and> plainText (componentCommonWaitForDnsIpMatchScript E)
     \<and> dnsAwaitPart E \<noteq> []
     \<and> hd (dnsAwaitPart E) \<notin> set tikvStartScript_head \<union> set tikvStartScript_tail"

subsection \<open>The three ways to choose the PD endpoint\<close>

text \<open>
  The conditions under which the three branches of the endpoint selection are taken, in
  the order of the \<^verbatim>\<open>if\<close> chain of the renderer.
\<close>

definition crossClusterBranch :: "TidbCluster \<Rightarrow> bool" where
  "crossClusterBranch tc \<longleftrightarrow> tc_AcrossK8s tc"

definition referenceClusterBranch :: "TidbCluster \<Rightarrow> bool" where
  "referenceClusterBranch tc \<longleftrightarrow> \<not> tc_AcrossK8s tc \<and> tc_Heterogeneous tc \<and> tc_WithoutLocalPD tc"

definition ownClusterBranch :: "TidbCluster \<Rightarrow> bool" where
  "ownClusterBranch tc \<longleftrightarrow> \<not> tc_AcrossK8s tc \<and> \<not> (tc_Heterogeneous tc \<and> tc_WithoutLocalPD tc)"

subsection \<open>Sample values\<close>

text \<open>
  Values for the declarations that the sources at hand do not contain, and a cluster
  object, on which the statements below are evaluated.
\<close>

definition exampleEnv :: env where
  \<open>exampleEnv =
     \<lparr> PDMemberName = (\<lambda>n. n @ ''-pd''),
       TiKVPeerMemberName = (\<lambda>n. n @ ''-tikv-peer''),
       DefaultPDClientPort = 2379,
       DefaultTiKVServerPort = 20160,
       DefaultTiKVStatusPort = 20180,
       TiKVDataVolumeMountPath = ''/var/lib/tikv'',
       StartScriptV2FeatureFlagWaitForDnsNameIpMatch = ''WaitForDnsNameIpMatch'',
       componentCommonScript = ''#!/bin/sh\<newline>set -uo pipefail\<newline>'',
       dnsAwaitPart = ''<<dns-await-part>>'',
       componentCommonWaitForDnsIpMatchScript =
         ''while ! eval "$nsLookupCmd"; do\<newline>    sleep 1\<newline>done\<newline>'' \<rparr>\<close>

definition exampleTc :: TidbCluster where
  "exampleTc =
     \<lparr> tc_Name = ''basic'', tc_Namespace = ''ns'', tc_AcrossK8s = False, tc_Heterogeneous = False,
       tc_WithoutLocalPD = False, tc_PDStartTimeout = 30, Spec_Cluster_Name = ''ref'',
       Spec_PreferIPv6 = False, Spec_ClusterDomain = [], Spec_TiKV_DataSubDir = ''data'',
       Spec_EnableDynamicConfiguration = None, Spec_StartScriptV2FeatureFlags = [] \<rparr>"

section \<open>Facts about the runtime functions\<close>

lemma Cut_None_iff: "sep \<noteq> [] \<Longrightarrow> Cut sep s = None \<longleftrightarrow> \<not> sublist sep s"
proof (induction s)
  case Nil
  then show ?case by simp
next
  case (Cons c cs)
  then show ?case by (auto simp: sublist_Cons_right)
qed

lemma Cut_first:
  assumes "\<not> sublist sep (x @ butlast sep)" and "sep \<noteq> []"
  shows "Cut sep (x @ sep @ r) = Some (x, r)"
  using assms(1)
proof (induction x)
  case Nil
  from assms(2) obtain c cs where "sep = c # cs" by (cases sep) auto
  then show ?case by simp
next
  case (Cons c x)
  have np: "\<not> prefix sep (c # x @ sep @ r)"
  proof
    assume "prefix sep (c # x @ sep @ r)"
    moreover have "prefix (c # x @ butlast sep) (c # x @ sep @ r)"
      by (simp add: prefixeq_butlast prefix_prefix)
    moreover have "length sep \<le> length (c # x @ butlast sep)" by simp
    ultimately have "prefix sep (c # x @ butlast sep)"
      by (rule prefix_length_prefix)
    then have "sublist sep ((c # x) @ butlast sep)" by (simp add: prefix_imp_sublist)
    with Cons.prems show False by simp
  qed
  have "\<not> sublist sep (x @ butlast sep)"
    using Cons.prems by (auto simp: sublist_Cons_right)
  from Cons.IH [OF this] np show ?case by simp
qed

lemma Cut_spliced:
  assumes "d \<noteq> []" and "hd d \<notin> set a"
  shows "Cut d (a @ d @ b) = Some (a, b)"
  using assms(2)
proof (induction a)
  case Nil
  from assms(1) obtain c cs where "d = c # cs" by (cases d) auto
  then show ?case by simp
next
  case (Cons x a)
  then have "\<not> prefix d (x # a @ d @ b)"
    using assms(1) by (cases d) auto
  with Cons show ?case by simp
qed

lemma Cut_absent:
  assumes "d \<noteq> []" and "hd d \<notin> set b"
  shows "Cut d b = None"
  using assms(2)
proof (induction b)
  case Nil
  with assms(1) show ?case by simp
next
  case (Cons x b)
  then have "\<not> prefix d (x # b)"
    using assms(1) by (cases d) auto
  with Cons show ?case by simp
qed

lemma ReplaceAll_spliced:
  assumes "d \<noteq> []" and "hd d \<notin> set a" and "hd d \<notin> set b"
  shows "ReplaceAll (a @ d @ b) d new = a @ new @ b"
proof -
  have "replaceEach d new b = b"
    using assms by (subst replaceEach.simps) (simp add: Cut_absent)
  then have "replaceEach d new (a @ d @ b) = a @ new @ b"
    using assms by (subst replaceEach.simps) (simp add: Cut_spliced)
  with assms(1) show ?thesis by (simp add: ReplaceAll_def)
qed

lemma TrimRight_append:
  "TrimRight (p @ s) = (if list_all isSpace s then TrimRight p else p @ TrimRight s)"
  by (auto simp: TrimRight_def dropWhile_append list_all_iff)

lemma TrimRight_eq_Nil_iff: "TrimRight s = [] \<longleftrightarrow> list_all isSpace s"
  by (simp add: TrimRight_def dropWhile_eq_Nil_conv list_all_iff)

lemma suffix_single: "ys \<noteq> [] \<Longrightarrow> suffix [a] (xs @ ys) \<longleftrightarrow> last ys = a"
proof -
  assume "ys \<noteq> []"
  then have "xs @ ys = (xs @ butlast ys) @ [last ys]" by simp
  then show ?thesis by (auto simp only: suffix_def append1_eq_conv)
qed

lemma prefix_single: "xs \<noteq> [] \<Longrightarrow> prefix [a] (xs @ ys) \<longleftrightarrow> hd xs = a"
  by (cases xs) auto

section \<open>Plain text in front of a left delimiter\<close>

lemma plainText_append:
  "plainText (p @ s) \<longleftrightarrow> plainText p \<and> plainText s \<and> \<not> (suffix ''{'' p \<and> prefix ''{'' s)"
proof -
  have "(\<exists>xs1 xs2. ''{{'' = xs1 @ xs2 \<and> suffix xs1 p \<and> prefix xs2 s)
        \<longleftrightarrow> prefix ''{{'' s \<or> suffix ''{{'' p \<or> (suffix ''{'' p \<and> prefix ''{'' s)" (is "?L \<longleftrightarrow> ?R")
  proof
    assume ?L
    then obtain xs1 xs2 where *: "''{{'' = xs1 @ xs2" "suffix xs1 p" "prefix xs2 s"
      by blast
    from *(1) have "(xs1 = [] \<and> xs2 = ''{{'') \<or> (xs1 = ''{'' \<and> xs2 = ''{'') \<or> (xs1 = ''{{'' \<and> xs2 = [])"
      by (cases xs1; cases "tl xs1"; cases xs2) auto
    with * show ?R by auto
  next
    assume ?R
    then consider "prefix ''{{'' s" | "suffix ''{{'' p" | "suffix ''{'' p \<and> prefix ''{'' s" by blast
    then show ?L
    proof cases
      case 1
      then show ?thesis by (intro exI [of _ "[]"] exI [of _ "''{{''"]) simp
    next
      case 2
      then show ?thesis by (intro exI [of _ "''{{''"] exI [of _ "[]"]) simp
    next
      case 3
      then show ?thesis by (intro exI [of _ "''{''"]) simp
    qed
  qed
  moreover have "prefix ''{{'' s \<Longrightarrow> sublist ''{{'' s" by (rule prefix_imp_sublist)
  moreover have "suffix ''{{'' p \<Longrightarrow> sublist ''{{'' p" by (rule suffix_imp_sublist)
  ultimately show ?thesis
    unfolding plainText_def leftDelim_def sublist_append by blast
qed

lemma plainText_lits: "plainText ''{''" "plainText ''\<newline>''" "plainText []"
  by (code_simp+)

lemma lexText_first:
  assumes "plainText x" and "\<not> suffix ''{'' x"
  shows "lex lexText (x @ ''{{'' @ r) =
           (let t = (if hasLeftTrimMarker r then TrimRight x else x)
            in (if t = [] then [] else [itemText t]) @ lex lexLeftDelim r)"
proof -
  have "plainText (x @ ''{'')"
    using assms by (simp add: plainText_append plainText_lits)
  then have "Cut leftDelim (x @ leftDelim @ r) = Some (x, r)"
    by (intro Cut_first) (simp_all add: plainText_def leftDelim_def)
  then show ?thesis
    by (simp add: leftDelim_def lex.simps(1))
qed

section \<open>Lexing the templates\<close>

lemmas lexdefs = isSpace_def isAlphaNumeric_def isDigit_def hasLeftTrimMarker_def hasRightTrimMarker_def
  atRightDelim_def atTerminator_def rightDelim_def nonASCII_def TrimLeft_def Let_def

lemma tail_lex: "lex lexLeftDelim tailRest = tailItems"
  by code_simp

lemma tail_split: "tikvStartScript_tail = ''\<newline>'' @ ''{{'' @ tailRest"
  by code_simp

lemma tailRest_trim: "hasLeftTrimMarker tailRest"
  by code_simp

lemma head_facts:
  "plainText tikvStartScript_head"
  "\<not> list_all isSpace tikvStartScript_head"
  "TrimRight tikvStartScript_head = tikvStartScript_head"
  "tikvStartScript_head \<noteq> []"
  "hd tikvStartScript_head = CHR ''\<newline>''"
  "\<not> prefix ''{'' tikvStartScript_head"
  by (code_simp+)

lemma nsLookupCmd_facts:
  "plainText nsLookupCmd"
  "\<not> list_all isSpace nsLookupCmd"
  "nsLookupCmd \<noteq> []"
  "last nsLookupCmd = CHR ''\<newline>''"
  by (code_simp+)

lemma lit_facts:
  "plainText ''\<newline>componentDomain=''"
  "plainText ''\<newline>waitThreshold=''"
  "\<not> suffix ''{'' ''\<newline>waitThreshold=''"
  by (code_simp+)

lemma dns_split:
  "tikvWaitForDnsIpMatchSubScript_lit =
     ''\<newline>componentDomain='' @ ''{{'' @ '' .AdvertiseHost }}'' @
     ''\<newline>waitThreshold='' @ ''{{'' @ '' .KVStartTimeout }}'' @ nsLookupCmd"
  by code_simp

lemma lex_AdvertiseHost:
  "lex lexLeftDelim ('' .AdvertiseHost }}'' @ Y)
     = [itemLeftDelim, itemSpace, itemField ''AdvertiseHost'', itemSpace, itemRightDelim] @ lex lexText Y"
  by (simp add: lex.simps(2-5) lexdefs)

lemma lex_KVStartTimeout:
  "lex lexLeftDelim ('' .KVStartTimeout }}'' @ Y)
     = [itemLeftDelim, itemSpace, itemField ''KVStartTimeout'', itemSpace, itemRightDelim] @ lex lexText Y"
  by (simp add: lex.simps(2-5) lexdefs)

lemma main_lex_noflag:
  assumes "plainText c"
  shows "lex lexText (c @ tikvStartScript_head @ tikvStartScript_tail)
           = itemText (c @ tikvStartScript_head) # tailItems"
proof -
  let ?x = "c @ tikvStartScript_head @ ''\<newline>''"
  have "plainText ?x"
    using assms head_facts by (simp add: plainText_append plainText_lits prefix_single)
  moreover have "\<not> suffix ''{'' ?x"
    using suffix_single [of "tikvStartScript_head @ ''\<newline>''" "CHR ''{''" c] by simp
  ultimately have "lex lexText (?x @ ''{{'' @ tailRest) =
      (let t = (if hasLeftTrimMarker tailRest then TrimRight ?x else ?x)
       in (if t = [] then [] else [itemText t]) @ lex lexLeftDelim tailRest)"
    by (rule lexText_first)
  moreover have "TrimRight ?x = c @ tikvStartScript_head"
    using head_facts by (simp add: TrimRight_append isSpace_def)
  ultimately have "lex lexText (?x @ ''{{'' @ tailRest) = itemText (c @ tikvStartScript_head) # tailItems"
    using head_facts by (simp add: tailRest_trim tail_lex)
  then show ?thesis
    by (simp add: tail_split)
qed

lemma main_lex_flag:
  assumes "plainText c" and "plainText d"
  shows "lex lexText (c @ tikvStartScript_head @ (tikvWaitForDnsIpMatchSubScript_lit @ d) @ tikvStartScript_tail)
           = [itemText (c @ tikvStartScript_head @ ''\<newline>componentDomain=''),
              itemLeftDelim, itemSpace, itemField ''AdvertiseHost'', itemSpace, itemRightDelim,
              itemText ''\<newline>waitThreshold='',
              itemLeftDelim, itemSpace, itemField ''KVStartTimeout'', itemSpace, itemRightDelim,
              itemText (TrimRight (nsLookupCmd @ d @ ''\<newline>''))] @ tailItems"
proof -
  let ?x1 = "c @ tikvStartScript_head @ ''\<newline>componentDomain=''"
  let ?x3 = "nsLookupCmd @ d @ ''\<newline>''"
  have 1: "plainText ?x1" "\<not> suffix ''{'' ?x1"
    using assms head_facts lit_facts
      suffix_single [of "tikvStartScript_head @ ''\<newline>componentDomain=''" "CHR ''{''" c]
    by (simp_all add: plainText_append plainText_lits prefix_single)
  have 3: "plainText ?x3" "\<not> suffix ''{'' ?x3"
    using assms nsLookupCmd_facts suffix_single [of "''\<newline>''" "CHR ''{''" "nsLookupCmd @ d"]
      suffix_single [of "nsLookupCmd" "CHR ''{''" "[]"]
    by (simp_all add: plainText_append plainText_lits)
  have l3: "lex lexText (?x3 @ ''{{'' @ tailRest) = itemText (TrimRight ?x3) # tailItems"
    unfolding lexText_first [OF 3]
    using nsLookupCmd_facts by (simp add: tailRest_trim tail_lex TrimRight_eq_Nil_iff)
  let ?r2 = "'' .KVStartTimeout }}'' @ ?x3 @ ''{{'' @ tailRest"
  have l2: "lex lexText (''\<newline>waitThreshold='' @ ''{{'' @ ?r2)
      = [itemText ''\<newline>waitThreshold='',
         itemLeftDelim, itemSpace, itemField ''KVStartTimeout'', itemSpace, itemRightDelim,
         itemText (TrimRight ?x3)] @ tailItems"
    unfolding lexText_first [OF lit_facts(2,3)] lex_KVStartTimeout l3
    by (simp add: hasLeftTrimMarker_def)
  let ?r1 = "'' .AdvertiseHost }}'' @ ''\<newline>waitThreshold='' @ ''{{'' @ ?r2"
  have l1: "lex lexText (?x1 @ ''{{'' @ ?r1)
      = [itemText ?x1,
         itemLeftDelim, itemSpace, itemField ''AdvertiseHost'', itemSpace, itemRightDelim,
         itemText ''\<newline>waitThreshold='',
         itemLeftDelim, itemSpace, itemField ''KVStartTimeout'', itemSpace, itemRightDelim,
         itemText (TrimRight ?x3)] @ tailItems"
    unfolding lexText_first [OF 1] lex_AdvertiseHost l2
    using head_facts by (simp add: hasLeftTrimMarker_def)
  show ?thesis
    using l1 by (simp add: dns_split tail_split)
qed

section \<open>Parsing the templates\<close>

lemma sub_parse:
  "parse_Parse ''tikv-start-script'' tikvStartSubScript
     = Inr [(''AcrossK8sSubscript'', AcrossK8sSubscript),
            (''tikv-start-script'', [TextNode ''\<newline>'', TextNode ''\<newline>''])]"
  by code_simp

lemma tail_segments_parse:
  "parse name [] [] cur (segments None tailItems) = Inr [(name, rev cur @ tailTree)]"
  by (simp add: tailItems_def tailTree_def scriptEnd_def classify_def pipeline_def skipSpace_def add_def)

lemma main_text:
  assumes "dnsAwaitPart E \<noteq> []"
    and "hd (dnsAwaitPart E) \<notin> set tikvStartScript_head \<union> set tikvStartScript_tail"
  shows "replaceTikvStartScriptDnsAwaitPart E (tikvStartScript E) w
           = tikvStartScript_head
             @ (if w then tikvWaitForDnsIpMatchSubScript_lit @ componentCommonWaitForDnsIpMatchScript E else [])
             @ tikvStartScript_tail"
  using assms
  by (simp add: replaceTikvStartScriptDnsAwaitPart_def tikvStartScript_def
        ReplaceAll_spliced tikvWaitForDnsIpMatchSubScript_def tikvWaitForDnsOnlySubScript_def)

lemma main_parse:
  assumes "wellFormedFragments E"
  shows "parse_Parse name (componentCommonScript E
             @ replaceTikvStartScriptDnsAwaitPart E (tikvStartScript E) w)
           = Inr [(name, headTree E w @ tailTree)]"
proof (cases w)
  case True
  with assms show ?thesis
    using main_lex_flag [of "componentCommonScript E" "componentCommonWaitForDnsIpMatchScript E"]
    by (simp add: main_text parse_Parse_def wellFormedFragments_def tail_segments_parse headTree_def
          classify_def pipeline_def skipSpace_def)
next
  case False
  with assms show ?thesis
    using main_lex_noflag [of "componentCommonScript E"]
    by (simp add: main_text parse_Parse_def wellFormedFragments_def tail_segments_parse headTree_def)
qed

lemma tailTree_not_empty: "\<not> IsEmptyTree (a @ tailTree)"
  by (induction a rule: IsEmptyTree.induct) (simp_all add: tailTree_def)

section \<open>Executing the templates\<close>

lemma walkList_append:
  "walkList ts depth dot (a @ b) =
     (case walkList ts depth dot a of
        Inl e \<Rightarrow> Inl e
      | Inr x \<Rightarrow> (case walkList ts depth dot b of Inl e \<Rightarrow> Inl e | Inr y \<Rightarrow> Inr (x @ y)))"
  by (induction a) (auto split: sum.splits)

lemma eval_model:
  "evalFieldChain (modelValue m) [''PDAddr''] = Inr (VStr (PDAddr m))"
  "evalFieldChain (modelValue m) [''Addr''] = Inr (VStr (Addr m))"
  "evalFieldChain (modelValue m) [''StatusAddr''] = Inr (VStr (StatusAddr m))"
  "evalFieldChain (modelValue m) [''AdvertiseHost''] = Inr (VStr (AdvertiseHost m))"
  "evalFieldChain (modelValue m) [''AdvertiseAddr''] = Inr (VStr (AdvertiseAddr m))"
  "evalFieldChain (modelValue m) [''DataDir''] = Inr (VStr (DataDir m))"
  "evalFieldChain (modelValue m) [''Capacity''] = Inr (VStr (Capacity m))"
  "evalFieldChain (modelValue m) [''ExtraArgs''] = Inr (VStr (ExtraArgs m))"
  "evalFieldChain (modelValue m) [''KVStartTimeout''] = Inr (VInt (KVStartTimeout m))"
  "evalFieldChain (modelValue m) [] = Inr (modelValue m)"
  by (simp_all add: modelValue_def evalField_def)

lemma eval_model_AcrossK8s:
  "\<exists>p. evalFieldChain (modelValue m) [''AcrossK8s''] = Inr (VPtr p) \<and> (p = None \<longleftrightarrow> AcrossK8s m = None)"
  "AcrossK8s m = Some a \<Longrightarrow>
     evalFieldChain (modelValue m) [''AcrossK8s'', ''PDAddr''] = Inr (VStr (AcrossK8s_PDAddr a))"
  "AcrossK8s m = Some a \<Longrightarrow>
     evalFieldChain (modelValue m) [''AcrossK8s'', ''DiscoveryAddr''] = Inr (VStr (AcrossK8s_DiscoveryAddr a))"
  by (simp_all add: modelValue_def evalField_def)

lemma walk_AcrossK8sSubscript:
  "AcrossK8s m = Some a \<Longrightarrow>
   walkList ts depth (modelValue m) AcrossK8sSubscript
     = Inr (discoveryBlock (AcrossK8s_PDAddr a) (AcrossK8s_DiscoveryAddr a))"
  by (simp add: AcrossK8sSubscript_def eval_model_AcrossK8s discoveryBlock_def del: evalFieldChain.simps)

lemma walk_tailTree:
  assumes "map_of ts ''AcrossK8sSubscript'' = Some AcrossK8sSubscript"
  shows "walkList ts 0 (modelValue m) tailTree
     = Inr ((case AcrossK8s m of
               None \<Rightarrow> []
             | Some a \<Rightarrow> discoveryBlock (AcrossK8s_PDAddr a) (AcrossK8s_DiscoveryAddr a))
            @ argsBlock m @ extraArgsLine m @ scriptEnd)"
proof -
  obtain p where p: "evalFieldChain (modelValue m) [''AcrossK8s''] = Inr (VPtr p)"
      "p = None \<longleftrightarrow> AcrossK8s m = None"
    using eval_model_AcrossK8s(1) by blast
  show ?thesis
  proof (cases "AcrossK8s m")
    case None
    with p assms show ?thesis
      by (simp add: tailTree_def eval_model argsBlock_def extraArgsLine_def del: evalFieldChain.simps)
  next
    case (Some a)
    with p assms show ?thesis
      by (simp add: tailTree_def eval_model walk_AcrossK8sSubscript maxExecDepth_def
            argsBlock_def extraArgsLine_def del: evalFieldChain.simps)
  qed
qed

lemma walk_headTree:
  "walkList ts depth (modelValue m) (headTree E w)
     = Inr (componentCommonScript E @ tikvStartScript_head @ (if w then dnsAwaitBlock E m else []))"
  by (simp add: headTree_def eval_model dnsAwaitBlock_def del: evalFieldChain.simps)

section \<open>The rendered script\<close>

lemma first_Parse:
  "Parse (template_New ''tikv-start-script'') tikvStartSubScript
     = Inr (''tikv-start-script'',
            [(''AcrossK8sSubscript'', AcrossK8sSubscript),
             (''tikv-start-script'', [TextNode ''\<newline>'', TextNode ''\<newline>''])])"
  by (simp add: Parse_def template_New_def sub_parse AddParseTree_def)

theorem render_shape:
  assumes "wellFormedFragments E"
  shows "RenderTiKVStartScript E tc
           = Return (script E (model E tc) (waitForDnsNameIpMatchOnStartup E tc), None)"
proof -
  let ?ts = "[(''AcrossK8sSubscript'', AcrossK8sSubscript),
              (''tikv-start-script'', headTree E (waitForDnsNameIpMatchOnStartup E tc) @ tailTree)]"
  have 2: "Parse (''tikv-start-script'',
                    [(''AcrossK8sSubscript'', AcrossK8sSubscript),
                     (''tikv-start-script'', [TextNode ''\<newline>'', TextNode ''\<newline>''])])
                 (componentCommonScript E
                   @ replaceTikvStartScriptDnsAwaitPart E (tikvStartScript E)
                       (waitForDnsNameIpMatchOnStartup E tc))
             = Inr (''tikv-start-script'', ?ts)"
    by (simp add: Parse_def main_parse [OF assms] AddParseTree_def tailTree_not_empty)
  have 3: "Execute (''tikv-start-script'', ?ts) (modelValue (model E tc))
             = Inr (script E (model E tc) (waitForDnsNameIpMatchOnStartup E tc))"
    by (simp add: Execute_def walkList_append walk_headTree walk_tailTree script_def)
  show ?thesis
    by (simp add: RenderTiKVStartScript_def Let_def first_Parse 2 3 Must_def renderTemplateFunc_def)
qed

lemma exampleEnv_wellFormed: "wellFormedFragments exampleEnv"
proof -
  have "plainText (componentCommonScript exampleEnv)"
    "plainText (componentCommonWaitForDnsIpMatchScript exampleEnv)"
    by (code_simp+)
  moreover have "hd (dnsAwaitPart exampleEnv) \<notin> set tikvStartScript_head \<union> set tikvStartScript_tail"
    by (simp add: exampleEnv_def tikvStartScript_head_def tikvStartScript_tail_def)
  moreover have "dnsAwaitPart exampleEnv \<noteq> []"
    by (simp add: exampleEnv_def)
  ultimately show ?thesis
    by (simp add: wellFormedFragments_def)
qed

section \<open>Claims\<close>

lemma Itoa_ports: "Itoa 2379 = ''2379''" "Itoa 20160 = ''20160''" "Itoa 20180 = ''20180''" "Itoa 30 = ''30''"
  by (simp_all add: Itoa_def digits.simps)

text \<open>
  C1.  For every cluster object exactly one of the three branches of the PD endpoint
  selection is taken, in priority order: a cluster that spans Kubernetes clusters gets the
  placeholder \<^verbatim>\<open>${result}\<close>; otherwise a heterogeneous cluster without a local PD gets the
  PD address of the referenced cluster; otherwise the endpoint is the PD address of the
  cluster itself.
\<close>

theorem pd_endpoint_selection:
  "(crossClusterBranch tc \<and> \<not> referenceClusterBranch tc \<and> \<not> ownClusterBranch tc
      \<and> PDAddr (model E tc) = ''${result}'')
   \<or> (referenceClusterBranch tc \<and> \<not> crossClusterBranch tc \<and> \<not> ownClusterBranch tc
      \<and> PDAddr (model E tc)
          = Sprintf_s_d (PDMemberName E (Spec_Cluster_Name tc)) (DefaultPDClientPort E))
   \<or> (ownClusterBranch tc \<and> \<not> crossClusterBranch tc \<and> \<not> referenceClusterBranch tc
      \<and> PDAddr (model E tc)
          = Sprintf_s_d (PDMemberName E (tc_Name tc)) (DefaultPDClientPort E))"
  by (auto simp: model_def crossClusterBranch_def referenceClusterBranch_def ownClusterBranch_def)

theorem pd_endpoint_selection_witness:
  "crossClusterBranch (exampleTc\<lparr>tc_AcrossK8s := True, tc_Heterogeneous := True, tc_WithoutLocalPD := True\<rparr>)
   \<and> PDAddr (model exampleEnv
        (exampleTc\<lparr>tc_AcrossK8s := True, tc_Heterogeneous := True, tc_WithoutLocalPD := True\<rparr>))
       = ''${result}''
   \<and> referenceClusterBranch (exampleTc\<lparr>tc_Heterogeneous := True, tc_WithoutLocalPD := True\<rparr>)
   \<and> PDAddr (model exampleEnv (exampleTc\<lparr>tc_Heterogeneous := True, tc_WithoutLocalPD := True\<rparr>))
       = ''ref-pd:2379''
   \<and> ownClusterBranch (exampleTc\<lparr>tc_Heterogeneous := True\<rparr>)
   \<and> PDAddr (model exampleEnv (exampleTc\<lparr>tc_Heterogeneous := True\<rparr>)) = ''basic-pd:2379''"
  using pd_endpoint_selection [of "exampleTc\<lparr>tc_AcrossK8s := True, tc_Heterogeneous := True, tc_WithoutLocalPD := True\<rparr>" exampleEnv]
    pd_endpoint_selection [of "exampleTc\<lparr>tc_Heterogeneous := True, tc_WithoutLocalPD := True\<rparr>" exampleEnv]
    pd_endpoint_selection [of "exampleTc\<lparr>tc_Heterogeneous := True\<rparr>" exampleEnv]
  by (simp add: crossClusterBranch_def referenceClusterBranch_def ownClusterBranch_def exampleTc_def
        exampleEnv_def Sprintf_s_d_def Itoa_ports)

text \<open>
  C6.  With the IPv6 preference set, the listen address and the status address are the
  bracketed all-interfaces literal \<^verbatim>\<open>[::]\<close> with the server port and the status port;
  otherwise they are \<^verbatim>\<open>0.0.0.0\<close> with the same ports.  The rendered script passes them
  as the values of \<^verbatim>\<open>--addr\<close> and \<^verbatim>\<open>--status-addr\<close>.
\<close>

theorem listen_addresses:
  "Addr (model E tc)
     = (if Spec_PreferIPv6 tc then ''[::]'' else ''0.0.0.0'') @ '':'' @ Itoa (DefaultTiKVServerPort E)
   \<and> StatusAddr (model E tc)
     = (if Spec_PreferIPv6 tc then ''[::]'' else ''0.0.0.0'') @ '':'' @ Itoa (DefaultTiKVStatusPort E)
   \<and> (wellFormedFragments E \<longrightarrow>
        (\<exists>pre post. RenderTiKVStartScript E tc
           = Return (pre @ ''--addr='' @ Addr (model E tc) @ '' '' @ [CHR 0x5C] @ ''\<newline>''
                     @ ''--status-addr='' @ StatusAddr (model E tc) @ '' '' @ [CHR 0x5C] @ ''\<newline>''
                     @ post, None)))"
proof (intro conjI impI)
  show "Addr (model E tc)
     = (if Spec_PreferIPv6 tc then ''[::]'' else ''0.0.0.0'') @ '':'' @ Itoa (DefaultTiKVServerPort E)"
    by (simp add: model_def listenHost_def Sprintf_s_d_def)
  show "StatusAddr (model E tc)
     = (if Spec_PreferIPv6 tc then ''[::]'' else ''0.0.0.0'') @ '':'' @ Itoa (DefaultTiKVStatusPort E)"
    by (simp add: model_def listenHost_def Sprintf_s_d_def)
next
  assume wf: "wellFormedFragments E"
  let ?m = "model E tc"
  let ?w = "waitForDnsNameIpMatchOnStartup E tc"
  let ?pre = "componentCommonScript E @ tikvStartScript_head @
     (if ?w then dnsAwaitBlock E ?m else []) @
     (case AcrossK8s ?m of
        None \<Rightarrow> []
      | Some a \<Rightarrow> discoveryBlock (AcrossK8s_PDAddr a) (AcrossK8s_DiscoveryAddr a)) @
     ''\<newline>\<newline>ARGS=\"--pd='' @ PDAddr ?m @ '' '' @ [CHR 0x5C] @ ''\<newline>--advertise-addr=''
     @ AdvertiseAddr ?m @ '' '' @ [CHR 0x5C] @ ''\<newline>''"
  let ?post = "''--data-dir='' @ DataDir ?m @ '' '' @ [CHR 0x5C] @ ''\<newline>--capacity='' @ Capacity ?m
     @ '' '' @ [CHR 0x5C] @ ''\<newline>--config=/etc/tikv/tikv.toml\"'' @ extraArgsLine ?m @ scriptEnd"
  have "script E ?m ?w = ?pre @ ''--addr='' @ Addr ?m @ '' '' @ [CHR 0x5C] @ ''\<newline>''
                     @ ''--status-addr='' @ StatusAddr ?m @ '' '' @ [CHR 0x5C] @ ''\<newline>'' @ ?post"
    by (simp add: script_def argsBlock_def)
  then have "RenderTiKVStartScript E tc
           = Return (?pre @ ''--addr='' @ Addr (model E tc) @ '' '' @ [CHR 0x5C] @ ''\<newline>''
                     @ ''--status-addr='' @ StatusAddr (model E tc) @ '' '' @ [CHR 0x5C] @ ''\<newline>''
                     @ ?post, None)"
    by (simp only: render_shape [OF wf])
  then show "\<exists>pre post. RenderTiKVStartScript E tc
           = Return (pre @ ''--addr='' @ Addr (model E tc) @ '' '' @ [CHR 0x5C] @ ''\<newline>''
                     @ ''--status-addr='' @ StatusAddr (model E tc) @ '' '' @ [CHR 0x5C] @ ''\<newline>''
                     @ post, None)"
    by (intro exI)
qed

theorem listen_addresses_witness:
  "wellFormedFragments exampleEnv
   \<and> Addr (model exampleEnv (exampleTc\<lparr>Spec_PreferIPv6 := True\<rparr>)) = ''[::]:20160''
   \<and> StatusAddr (model exampleEnv (exampleTc\<lparr>Spec_PreferIPv6 := True\<rparr>)) = ''[::]:20180''
   \<and> Addr (model exampleEnv exampleTc) = ''0.0.0.0:20160''
   \<and> StatusAddr (model exampleEnv exampleTc) = ''0.0.0.0:20180''
   \<and> (\<exists>pre post. RenderTiKVStartScript exampleEnv (exampleTc\<lparr>Spec_PreferIPv6 := True\<rparr>)
           = Return (pre @ ''--addr=[::]:20160 '' @ [CHR 0x5C] @ ''\<newline>''
                     @ ''--status-addr=[::]:20180 '' @ [CHR 0x5C] @ ''\<newline>'' @ post, None))"
proof -
  have a: "Addr (model exampleEnv (exampleTc\<lparr>Spec_PreferIPv6 := True\<rparr>)) = ''[::]:20160''"
    and s: "StatusAddr (model exampleEnv (exampleTc\<lparr>Spec_PreferIPv6 := True\<rparr>)) = ''[::]:20180''"
    using listen_addresses [of exampleEnv "exampleTc\<lparr>Spec_PreferIPv6 := True\<rparr>"]
    by (simp_all add: exampleEnv_def Itoa_ports)
  have "Addr (model exampleEnv exampleTc) = ''0.0.0.0:20160''"
    "StatusAddr (model exampleEnv exampleTc) = ''0.0.0.0:20180''"
    using listen_addresses [of exampleEnv exampleTc]
    by (simp_all add: exampleEnv_def exampleTc_def Itoa_ports)
  moreover have "\<exists>pre post. RenderTiKVStartScript exampleEnv (exampleTc\<lparr>Spec_PreferIPv6 := True\<rparr>)
           = Return (pre @ ''--addr=[::]:20160 '' @ [CHR 0x5C] @ ''\<newline>''
                     @ ''--status-addr=[::]:20180 '' @ [CHR 0x5C] @ ''\<newline>'' @ post, None)"
    using listen_addresses [of exampleEnv "exampleTc\<lparr>Spec_PreferIPv6 := True\<rparr>"]
      exampleEnv_wellFormed
    unfolding a s by simp
  ultimately show ?thesis
    using a s exampleEnv_wellFormed by simp
qed

text \<open>
  C10.  Two cluster objects that differ only in the IPv6 preference resolve to models that
  differ only in the listen address and the status address: the advertise host, the
  advertise address, the PD endpoint, the data directory, the capacity placeholder, the
  timeout, the extra arguments and the discovery sub-model are the same.  The advertise
  host and address are built from the pod name and are never bracketed.
\<close>

theorem ipv6_preference_frame:
  "model E (tc\<lparr>Spec_PreferIPv6 := b\<rparr>)
     = (model E tc)\<lparr>Addr := Sprintf_s_d (if b then ''[::]'' else ''0.0.0.0'') (DefaultTiKVServerPort E),
                    StatusAddr := Sprintf_s_d (if b then ''[::]'' else ''0.0.0.0'') (DefaultTiKVStatusPort E)\<rparr>
   \<and> AdvertiseHost (model E (tc\<lparr>Spec_PreferIPv6 := b\<rparr>)) = AdvertiseHost (model E tc)
   \<and> AdvertiseAddr (model E (tc\<lparr>Spec_PreferIPv6 := b\<rparr>)) = AdvertiseAddr (model E tc)
   \<and> PDAddr (model E (tc\<lparr>Spec_PreferIPv6 := b\<rparr>)) = PDAddr (model E tc)
   \<and> DataDir (model E (tc\<lparr>Spec_PreferIPv6 := b\<rparr>)) = DataDir (model E tc)
   \<and> Capacity (model E (tc\<lparr>Spec_PreferIPv6 := b\<rparr>)) = Capacity (model E tc)
   \<and> KVStartTimeout (model E (tc\<lparr>Spec_PreferIPv6 := b\<rparr>)) = KVStartTimeout (model E tc)
   \<and> ExtraArgs (model E (tc\<lparr>Spec_PreferIPv6 := b\<rparr>)) = ExtraArgs (model E tc)
   \<and> AcrossK8s (model E (tc\<lparr>Spec_PreferIPv6 := b\<rparr>)) = AcrossK8s (model E tc)
   \<and> prefix ''${TIKV_POD_NAME}.'' (AdvertiseHost (model E (tc\<lparr>Spec_PreferIPv6 := b\<rparr>)))
   \<and> prefix ''${TIKV_POD_NAME}.'' (AdvertiseAddr (model E (tc\<lparr>Spec_PreferIPv6 := b\<rparr>)))"
  by (simp add: model_def listenHost_def advertiseHost_def extraArgs_def Sprintf_s_d_def Let_def)

text \<open>
  C9.  A cluster object whose dynamic-configuration flag is unset (the nil pointer) renders
  to the same result as one whose flag is explicitly false: there are no extra arguments,
  and the script has no line that appends them, so that the assembly of the base
  arguments is followed at once by the end of the script.
\<close>

theorem dynamic_configuration_unset:
  "RenderTiKVStartScript E (tc\<lparr>Spec_EnableDynamicConfiguration := None\<rparr>)
     = RenderTiKVStartScript E (tc\<lparr>Spec_EnableDynamicConfiguration := Some False\<rparr>)
   \<and> extraArgs E (tc\<lparr>Spec_EnableDynamicConfiguration := None\<rparr>) = []
   \<and> ExtraArgs (model E (tc\<lparr>Spec_EnableDynamicConfiguration := None\<rparr>)) = []
   \<and> extraArgsLine (model E (tc\<lparr>Spec_EnableDynamicConfiguration := None\<rparr>)) = []
   \<and> (wellFormedFragments E \<longrightarrow>
        (\<exists>pre. RenderTiKVStartScript E (tc\<lparr>Spec_EnableDynamicConfiguration := None\<rparr>)
           = Return (pre @ argsBlock (model E (tc\<lparr>Spec_EnableDynamicConfiguration := None\<rparr>))
                     @ scriptEnd, None)))"
proof (intro conjI impI)
  have "model E (tc\<lparr>Spec_EnableDynamicConfiguration := None\<rparr>)
          = model E (tc\<lparr>Spec_EnableDynamicConfiguration := Some False\<rparr>)"
    by (simp add: model_def listenHost_def advertiseHost_def extraArgs_def Let_def)
  moreover have "waitForDnsNameIpMatchOnStartup E (tc\<lparr>Spec_EnableDynamicConfiguration := None\<rparr>)
          = waitForDnsNameIpMatchOnStartup E (tc\<lparr>Spec_EnableDynamicConfiguration := Some False\<rparr>)"
    by (simp add: waitForDnsNameIpMatchOnStartup_def)
  ultimately show "RenderTiKVStartScript E (tc\<lparr>Spec_EnableDynamicConfiguration := None\<rparr>)
     = RenderTiKVStartScript E (tc\<lparr>Spec_EnableDynamicConfiguration := Some False\<rparr>)"
    by (simp add: RenderTiKVStartScript_def)
  show "extraArgs E (tc\<lparr>Spec_EnableDynamicConfiguration := None\<rparr>) = []"
    by (simp add: extraArgs_def)
  then show none: "ExtraArgs (model E (tc\<lparr>Spec_EnableDynamicConfiguration := None\<rparr>)) = []"
    by (simp add: model_def)
  then show line: "extraArgsLine (model E (tc\<lparr>Spec_EnableDynamicConfiguration := None\<rparr>)) = []"
    by (simp add: extraArgsLine_def)
  assume wf: "wellFormedFragments E"
  show "\<exists>pre. RenderTiKVStartScript E (tc\<lparr>Spec_EnableDynamicConfiguration := None\<rparr>)
           = Return (pre @ argsBlock (model E (tc\<lparr>Spec_EnableDynamicConfiguration := None\<rparr>))
                     @ scriptEnd, None)"
    unfolding render_shape [OF wf] script_def line
    by (intro exI [of _ "componentCommonScript E @ tikvStartScript_head @ _ @ _"]) simp
qed

theorem dynamic_configuration_unset_witness:
  "wellFormedFragments exampleEnv
   \<and> RenderTiKVStartScript exampleEnv (exampleTc\<lparr>Spec_EnableDynamicConfiguration := None\<rparr>)
       = RenderTiKVStartScript exampleEnv (exampleTc\<lparr>Spec_EnableDynamicConfiguration := Some False\<rparr>)
   \<and> (\<exists>pre. RenderTiKVStartScript exampleEnv (exampleTc\<lparr>Spec_EnableDynamicConfiguration := None\<rparr>)
           = Return (pre @ argsBlock (model exampleEnv (exampleTc\<lparr>Spec_EnableDynamicConfiguration := None\<rparr>))
                     @ scriptEnd, None))"
  using dynamic_configuration_unset [of exampleEnv exampleTc] exampleEnv_wellFormed
  by blast

section \<open>Failures of the render call\<close>




lemma Parse_Inl: "Parse t text = Inl e \<longleftrightarrow> parse_Parse (fst t) text = Inl e"
  by (simp add: Parse_def split: sum.splits)

lemma render_unfolded:
  "RenderTiKVStartScript E tc
     = (case Parse (''tikv-start-script'',
                    [(''AcrossK8sSubscript'', AcrossK8sSubscript),
                     (''tikv-start-script'', [TextNode ''\<newline>'', TextNode ''\<newline>''])])
               (componentCommonScript E
                  @ replaceTikvStartScriptDnsAwaitPart E (tikvStartScript E)
                      (waitForDnsNameIpMatchOnStartup E tc)) of
          Inl e \<Rightarrow> Panic e
        | Inr tpl \<Rightarrow> Return (renderTemplateFunc tpl (model E tc)))"
  by (simp add: RenderTiKVStartScript_def Let_def first_Parse Must_def split: sum.splits)


lemma render_error_no_script:
  "RenderTiKVStartScript E tc = Return (s, Some e) \<Longrightarrow> s = []"
  unfolding render_unfolded
  by (auto simp: renderTemplateFunc_def split: sum.splits)






section \<open>The blocks of the script\<close>

lemma model_cross_cluster:
  "tc_AcrossK8s tc \<Longrightarrow>
     AcrossK8s (model E tc)
       = Some \<lparr> AcrossK8s_PDAddr = Sprintf_s_d (PDMemberName E (tc_Name tc)) (DefaultPDClientPort E),
                AcrossK8s_DiscoveryAddr = tc_Name tc @ ''-discovery.'' @ tc_Namespace tc @ '':10261'' \<rparr>"
  "tc_AcrossK8s tc \<Longrightarrow> PDAddr (model E tc) = ''${result}''"
  "\<not> tc_AcrossK8s tc \<Longrightarrow> AcrossK8s (model E tc) = None"
  by (simp_all add: model_def)

lemma argsBlock_prefix:
  "prefix (''\<newline>\<newline>ARGS=\"--pd='' @ PDAddr m @ '' '' @ [CHR 0x5C] @ ''\<newline>'') (argsBlock m)"
  by (simp add: argsBlock_def)

lemma model_ExtraArgs:
  "ExtraArgs (model E tc)
     = (if Spec_EnableDynamicConfiguration tc = Some True
        then ''--advertise-status-addr='' @ AdvertiseHost (model E tc) @ '':''
               @ Itoa (DefaultTiKVStatusPort E)
        else [])"
  by (simp add: model_def extraArgs_def advertiseHost_def Sprintf_s_d_def Let_def)

text \<open>
  C2, as the specification has it: with the cross-cluster flag the address of the PD
  members is absent from the script.  It is not: the discovery block assigns it to
  \<^verbatim>\<open>pd_url\<close>.  For the cluster \<^verbatim>\<open>basic\<close> the address is \<^verbatim>\<open>basic-pd:2379\<close>, and the rendered
  script contains it.
\<close>

theorem cross_cluster_address_present:
  "RenderTiKVStartScript exampleEnv (exampleTc\<lparr>tc_AcrossK8s := True\<rparr>)
     = Return (script exampleEnv (model exampleEnv (exampleTc\<lparr>tc_AcrossK8s := True\<rparr>)) False, None)
   \<and> Sprintf_s_d (PDMemberName exampleEnv (tc_Name (exampleTc\<lparr>tc_AcrossK8s := True\<rparr>)))
        (DefaultPDClientPort exampleEnv) = ''basic-pd:2379''
   \<and> sublist ''basic-pd:2379''
        (script exampleEnv (model exampleEnv (exampleTc\<lparr>tc_AcrossK8s := True\<rparr>)) False)"
proof (intro conjI)
  let ?tc = "exampleTc\<lparr>tc_AcrossK8s := True\<rparr>"
  have "\<not> waitForDnsNameIpMatchOnStartup exampleEnv ?tc"
    by (simp add: waitForDnsNameIpMatchOnStartup_def exampleTc_def)
  then show "RenderTiKVStartScript exampleEnv ?tc
     = Return (script exampleEnv (model exampleEnv ?tc) False, None)"
    using render_shape [OF exampleEnv_wellFormed, of ?tc] by simp
  show a: "Sprintf_s_d (PDMemberName exampleEnv (tc_Name ?tc)) (DefaultPDClientPort exampleEnv)
      = ''basic-pd:2379''"
    by (simp add: Sprintf_s_d_def exampleEnv_def exampleTc_def Itoa_ports)
  have "script exampleEnv (model exampleEnv ?tc) False
      = (componentCommonScript exampleEnv @ tikvStartScript_head @ ''\<newline>pd_url='')
        @ ''basic-pd:2379''
        @ (''\<newline>encoded_domain_url=$(echo $pd_url | base64 | tr \"'' @ [CHR 0x5C]
           @ ''n\" \" \" | sed \"s/ //g\")\<newline>discovery_url=''
           @ tc_Name ?tc @ ''-discovery.'' @ tc_Namespace ?tc @ '':10261'' @ discoveryLoop
           @ argsBlock (model exampleEnv ?tc) @ extraArgsLine (model exampleEnv ?tc) @ scriptEnd)"
    using a by (simp add: script_def model_cross_cluster discoveryBlock_def)
  then show "sublist ''basic-pd:2379'' (script exampleEnv (model exampleEnv ?tc) False)"
    by (simp only: sublist_appendI)
qed

text \<open>
  C2, amended.  With the cross-cluster flag the value of the \<^verbatim>\<open>--pd\<close> flag is the
  placeholder \<^verbatim>\<open>${result}\<close>.  The script of well-formed fragments has the discovery block
  once, between the line that sets the pod name (or the block that waits for the DNS
  name) and the assembly of \<^verbatim>\<open>ARGS\<close>.  The block assigns the address of the PD members of
  the cluster to \<^verbatim>\<open>pd_url\<close>, encodes it with \<^verbatim>\<open>base64\<close>, assigns the address of the discovery
  service to \<^verbatim>\<open>discovery_url\<close>, and ends with the polling loop.  So the address of the PD
  members is part of the script, as the value of \<^verbatim>\<open>pd_url\<close> and not of \<^verbatim>\<open>--pd\<close>.
\<close>

theorem cross_cluster_discovery:
  assumes "tc_AcrossK8s tc"
  shows "PDAddr (model E tc) = ''${result}''
   \<and> prefix (''\<newline>\<newline>ARGS=\"--pd=${result} '' @ [CHR 0x5C] @ ''\<newline>'') (argsBlock (model E tc))
   \<and> (wellFormedFragments E \<longrightarrow>
        RenderTiKVStartScript E tc
          = Return (componentCommonScript E @ tikvStartScript_head
                    @ (if waitForDnsNameIpMatchOnStartup E tc then dnsAwaitBlock E (model E tc) else [])
                    @ (''\<newline>pd_url='' @ Sprintf_s_d (PDMemberName E (tc_Name tc)) (DefaultPDClientPort E)
                       @ ''\<newline>encoded_domain_url=$(echo $pd_url | base64 | tr \"'' @ [CHR 0x5C]
                       @ ''n\" \" \" | sed \"s/ //g\")\<newline>discovery_url=''
                       @ tc_Name tc @ ''-discovery.'' @ tc_Namespace tc @ '':10261'' @ discoveryLoop)
                    @ argsBlock (model E tc) @ extraArgsLine (model E tc) @ scriptEnd, None))"
proof (intro conjI impI)
  show p: "PDAddr (model E tc) = ''${result}''"
    using assms by (rule model_cross_cluster)
  show "prefix (''\<newline>\<newline>ARGS=\"--pd=${result} '' @ [CHR 0x5C] @ ''\<newline>'') (argsBlock (model E tc))"
    using argsBlock_prefix [of "model E tc"] unfolding p by simp
next
  assume wf: "wellFormedFragments E"
  show "RenderTiKVStartScript E tc
          = Return (componentCommonScript E @ tikvStartScript_head
                    @ (if waitForDnsNameIpMatchOnStartup E tc then dnsAwaitBlock E (model E tc) else [])
                    @ (''\<newline>pd_url='' @ Sprintf_s_d (PDMemberName E (tc_Name tc)) (DefaultPDClientPort E)
                       @ ''\<newline>encoded_domain_url=$(echo $pd_url | base64 | tr \"'' @ [CHR 0x5C]
                       @ ''n\" \" \" | sed \"s/ //g\")\<newline>discovery_url=''
                       @ tc_Name tc @ ''-discovery.'' @ tc_Namespace tc @ '':10261'' @ discoveryLoop)
                    @ argsBlock (model E tc) @ extraArgsLine (model E tc) @ scriptEnd, None)"
    unfolding render_shape [OF wf] script_def model_cross_cluster(1) [OF assms]
    by (simp add: discoveryBlock_def)
qed

theorem cross_cluster_discovery_witness:
  "tc_AcrossK8s (exampleTc\<lparr>tc_AcrossK8s := True\<rparr>) \<and> wellFormedFragments exampleEnv
   \<and> PDAddr (model exampleEnv (exampleTc\<lparr>tc_AcrossK8s := True\<rparr>)) = ''${result}''
   \<and> RenderTiKVStartScript exampleEnv (exampleTc\<lparr>tc_AcrossK8s := True\<rparr>)
       = Return (componentCommonScript exampleEnv @ tikvStartScript_head
                 @ (''\<newline>pd_url=basic-pd:2379''
                    @ ''\<newline>encoded_domain_url=$(echo $pd_url | base64 | tr \"'' @ [CHR 0x5C]
                    @ ''n\" \" \" | sed \"s/ //g\")\<newline>discovery_url=''
                    @ ''basic-discovery.ns:10261'' @ discoveryLoop)
                 @ argsBlock (model exampleEnv (exampleTc\<lparr>tc_AcrossK8s := True\<rparr>))
                 @ extraArgsLine (model exampleEnv (exampleTc\<lparr>tc_AcrossK8s := True\<rparr>))
                 @ scriptEnd, None)"
proof -
  let ?tc = "exampleTc\<lparr>tc_AcrossK8s := True\<rparr>"
  have w: "\<not> waitForDnsNameIpMatchOnStartup exampleEnv ?tc"
    by (simp add: waitForDnsNameIpMatchOnStartup_def exampleTc_def)
  have a: "Sprintf_s_d (PDMemberName exampleEnv (tc_Name ?tc)) (DefaultPDClientPort exampleEnv)
      = ''basic-pd:2379''"
    by (simp add: Sprintf_s_d_def exampleEnv_def exampleTc_def Itoa_ports)
  have a': "Sprintf_s_d (PDMemberName exampleEnv ''basic'') (DefaultPDClientPort exampleEnv)
      = ''basic-pd:2379''"
    by (simp add: Sprintf_s_d_def exampleEnv_def Itoa_ports)
  have n: "tc_Name ?tc = ''basic''" "tc_Namespace ?tc = ''ns''"
    by (simp_all add: exampleTc_def)
  have t: "tc_AcrossK8s ?tc" by simp
  note th = cross_cluster_discovery [OF t, of exampleEnv]
  from th have 1: "PDAddr (model exampleEnv ?tc) = ''${result}''"
    by blast
  from th exampleEnv_wellFormed
  have "RenderTiKVStartScript exampleEnv ?tc
          = Return (componentCommonScript exampleEnv @ tikvStartScript_head
                    @ (if waitForDnsNameIpMatchOnStartup exampleEnv ?tc
                       then dnsAwaitBlock exampleEnv (model exampleEnv ?tc) else [])
                    @ (''\<newline>pd_url='' @ Sprintf_s_d (PDMemberName exampleEnv (tc_Name ?tc)) (DefaultPDClientPort exampleEnv)
                       @ ''\<newline>encoded_domain_url=$(echo $pd_url | base64 | tr \"'' @ [CHR 0x5C]
                       @ ''n\" \" \" | sed \"s/ //g\")\<newline>discovery_url=''
                       @ tc_Name ?tc @ ''-discovery.'' @ tc_Namespace ?tc @ '':10261'' @ discoveryLoop)
                    @ argsBlock (model exampleEnv ?tc) @ extraArgsLine (model exampleEnv ?tc) @ scriptEnd, None)"
    by blast
  then have 2: "RenderTiKVStartScript exampleEnv ?tc
       = Return (componentCommonScript exampleEnv @ tikvStartScript_head
                 @ (''\<newline>pd_url=basic-pd:2379''
                    @ ''\<newline>encoded_domain_url=$(echo $pd_url | base64 | tr \"'' @ [CHR 0x5C]
                    @ ''n\" \" \" | sed \"s/ //g\")\<newline>discovery_url=''
                    @ ''basic-discovery.ns:10261'' @ discoveryLoop)
                 @ argsBlock (model exampleEnv ?tc)
                 @ extraArgsLine (model exampleEnv ?tc)
                 @ scriptEnd, None)"
    unfolding n a' using w by simp
  from t exampleEnv_wellFormed 1 2 show ?thesis
    by (intro conjI)
qed

text \<open>
  C3.  The flag \<^verbatim>\<open>waitForDnsNameIpMatchOnStartup\<close> is set if and only if the feature flags
  of the cluster contain the token.  With the flag the placeholder in the template text is
  replaced by the subscript that waits for the DNS name, without it by the empty string.
  So the script of well-formed fragments has the block that waits for the DNS name, which
  sets \<^verbatim>\<open>componentDomain\<close> to the advertise host and \<^verbatim>\<open>waitThreshold\<close> to the timeout, after
  the line that sets the pod name when the flag is set, and nothing in its place when it
  is not; the rest of the script is the same.
\<close>

theorem dns_await_fragment:
  "(waitForDnsNameIpMatchOnStartup E tc
      \<longleftrightarrow> StartScriptV2FeatureFlagWaitForDnsNameIpMatch E \<in> set (Spec_StartScriptV2FeatureFlags tc))
   \<and> (wellFormedFragments E \<longrightarrow>
        replaceTikvStartScriptDnsAwaitPart E (tikvStartScript E) (waitForDnsNameIpMatchOnStartup E tc)
          = tikvStartScript_head
            @ (if waitForDnsNameIpMatchOnStartup E tc then tikvWaitForDnsIpMatchSubScript E else [])
            @ tikvStartScript_tail
        \<and> RenderTiKVStartScript E tc
          = Return (componentCommonScript E @ tikvStartScript_head
                    @ (if waitForDnsNameIpMatchOnStartup E tc then dnsAwaitBlock E (model E tc) else [])
                    @ (case AcrossK8s (model E tc) of
                         None \<Rightarrow> []
                       | Some a \<Rightarrow> discoveryBlock (AcrossK8s_PDAddr a) (AcrossK8s_DiscoveryAddr a))
                    @ argsBlock (model E tc) @ extraArgsLine (model E tc) @ scriptEnd, None))
   \<and> prefix (''\<newline>componentDomain='' @ AdvertiseHost (model E tc)
             @ ''\<newline>waitThreshold='' @ Itoa (KVStartTimeout (model E tc))
             @ ''\<newline>nsLookupCmd='')
        (dnsAwaitBlock E (model E tc))"
proof (intro conjI impI)
  show "waitForDnsNameIpMatchOnStartup E tc
      \<longleftrightarrow> StartScriptV2FeatureFlagWaitForDnsNameIpMatch E \<in> set (Spec_StartScriptV2FeatureFlags tc)"
    by (simp add: waitForDnsNameIpMatchOnStartup_def)
next
  assume wf: "wellFormedFragments E"
  then show "replaceTikvStartScriptDnsAwaitPart E (tikvStartScript E) (waitForDnsNameIpMatchOnStartup E tc)
          = tikvStartScript_head
            @ (if waitForDnsNameIpMatchOnStartup E tc then tikvWaitForDnsIpMatchSubScript E else [])
            @ tikvStartScript_tail"
    by (simp add: main_text wellFormedFragments_def tikvWaitForDnsIpMatchSubScript_def)
  show "RenderTiKVStartScript E tc
          = Return (componentCommonScript E @ tikvStartScript_head
                    @ (if waitForDnsNameIpMatchOnStartup E tc then dnsAwaitBlock E (model E tc) else [])
                    @ (case AcrossK8s (model E tc) of
                         None \<Rightarrow> []
                       | Some a \<Rightarrow> discoveryBlock (AcrossK8s_PDAddr a) (AcrossK8s_DiscoveryAddr a))
                    @ argsBlock (model E tc) @ extraArgsLine (model E tc) @ scriptEnd, None)"
    unfolding render_shape [OF wf] script_def by simp
next
  have "TrimRight (nsLookupCmd @ componentCommonWaitForDnsIpMatchScript E @ ''\<newline>'')
      = nsLookupCmd @ TrimRight (componentCommonWaitForDnsIpMatchScript E @ ''\<newline>'')
      \<or> TrimRight (nsLookupCmd @ componentCommonWaitForDnsIpMatchScript E @ ''\<newline>'')
      = TrimRight nsLookupCmd"
    by (simp add: TrimRight_append)
  moreover have "prefix ''\<newline>nsLookupCmd='' nsLookupCmd" "prefix ''\<newline>nsLookupCmd='' (TrimRight nsLookupCmd)"
    by (code_simp+)
  ultimately have "prefix ''\<newline>nsLookupCmd=''
      (TrimRight (nsLookupCmd @ componentCommonWaitForDnsIpMatchScript E @ ''\<newline>''))"
    by (auto intro: prefix_prefix)
  then show "prefix (''\<newline>componentDomain='' @ AdvertiseHost (model E tc)
             @ ''\<newline>waitThreshold='' @ Itoa (KVStartTimeout (model E tc))
             @ ''\<newline>nsLookupCmd='')
        (dnsAwaitBlock E (model E tc))"
    by (simp add: dnsAwaitBlock_def)
qed

theorem dns_await_fragment_witness:
  "wellFormedFragments exampleEnv
   \<and> waitForDnsNameIpMatchOnStartup exampleEnv
       (exampleTc\<lparr>Spec_StartScriptV2FeatureFlags := [''WaitForDnsNameIpMatch'']\<rparr>)
   \<and> \<not> waitForDnsNameIpMatchOnStartup exampleEnv exampleTc
   \<and> replaceTikvStartScriptDnsAwaitPart exampleEnv (tikvStartScript exampleEnv) False
       = tikvStartScript_head @ tikvStartScript_tail
   \<and> RenderTiKVStartScript exampleEnv exampleTc
       = Return (componentCommonScript exampleEnv @ tikvStartScript_head
                 @ argsBlock (model exampleEnv exampleTc) @ scriptEnd, None)"
proof -
  have f: "Spec_StartScriptV2FeatureFlags exampleTc = []"
    "StartScriptV2FeatureFlagWaitForDnsNameIpMatch exampleEnv = ''WaitForDnsNameIpMatch''"
    by (simp_all add: exampleTc_def exampleEnv_def)
  have m: "AcrossK8s (model exampleEnv exampleTc) = None"
    "extraArgsLine (model exampleEnv exampleTc) = []"
    by (simp_all add: model_def exampleTc_def extraArgsLine_def extraArgs_def)
  have 1: "waitForDnsNameIpMatchOnStartup exampleEnv
       (exampleTc\<lparr>Spec_StartScriptV2FeatureFlags := [''WaitForDnsNameIpMatch'']\<rparr>)"
    using dns_await_fragment [of exampleEnv "exampleTc\<lparr>Spec_StartScriptV2FeatureFlags := [''WaitForDnsNameIpMatch'']\<rparr>"]
    by (simp add: f)
  have 2: "\<not> waitForDnsNameIpMatchOnStartup exampleEnv exampleTc"
    using dns_await_fragment [of exampleEnv exampleTc] by (simp add: f)
  show ?thesis
    using dns_await_fragment [of exampleEnv exampleTc] exampleEnv_wellFormed 1 2
    by (simp add: m)
qed

text \<open>
  C4.  The renderer has extra arguments if and only if dynamic configuration is enabled:
  then there is exactly one, the flag \<^verbatim>\<open>--advertise-status-addr\<close> with the advertise host
  and the status port.  The script of well-formed fragments appends it to \<^verbatim>\<open>ARGS\<close>, after
  a space, in a line that follows at once the line of the last base flag; when dynamic
  configuration is not enabled there is no such line and the end of the script follows.
\<close>

theorem extra_arguments_line:
  "extraArgs E tc
     = (if Spec_EnableDynamicConfiguration tc = Some True
        then [''--advertise-status-addr='' @ AdvertiseHost (model E tc) @ '':''
                @ Itoa (DefaultTiKVStatusPort E)]
        else [])
   \<and> ExtraArgs (model E tc)
     = (if Spec_EnableDynamicConfiguration tc = Some True
        then ''--advertise-status-addr='' @ AdvertiseHost (model E tc) @ '':''
               @ Itoa (DefaultTiKVStatusPort E)
        else [])
   \<and> (wellFormedFragments E \<longrightarrow>
        (\<exists>pre. RenderTiKVStartScript E tc
           = Return (pre @ ''--capacity='' @ Capacity (model E tc) @ '' '' @ [CHR 0x5C]
                     @ ''\<newline>--config=/etc/tikv/tikv.toml\"''
                     @ (if Spec_EnableDynamicConfiguration tc = Some True
                        then ''\<newline>ARGS=\"${ARGS} --advertise-status-addr=''
                               @ AdvertiseHost (model E tc) @ '':''
                               @ Itoa (DefaultTiKVStatusPort E) @ ''\"''
                        else [])
                     @ scriptEnd, None)))"
proof (intro conjI impI)
  show "extraArgs E tc
     = (if Spec_EnableDynamicConfiguration tc = Some True
        then [''--advertise-status-addr='' @ AdvertiseHost (model E tc) @ '':''
                @ Itoa (DefaultTiKVStatusPort E)]
        else [])"
    by (simp add: model_def extraArgs_def advertiseHost_def Sprintf_s_d_def Let_def)
  show "ExtraArgs (model E tc)
     = (if Spec_EnableDynamicConfiguration tc = Some True
        then ''--advertise-status-addr='' @ AdvertiseHost (model E tc) @ '':''
               @ Itoa (DefaultTiKVStatusPort E)
        else [])"
    by (rule model_ExtraArgs)
next
  assume wf: "wellFormedFragments E"
  let ?m = "model E tc"
  let ?pre = "componentCommonScript E @ tikvStartScript_head
     @ (if waitForDnsNameIpMatchOnStartup E tc then dnsAwaitBlock E ?m else [])
     @ (case AcrossK8s ?m of
          None \<Rightarrow> []
        | Some a \<Rightarrow> discoveryBlock (AcrossK8s_PDAddr a) (AcrossK8s_DiscoveryAddr a))
     @ ''\<newline>\<newline>ARGS=\"--pd='' @ PDAddr ?m @ '' '' @ [CHR 0x5C] @ ''\<newline>--advertise-addr=''
     @ AdvertiseAddr ?m @ '' '' @ [CHR 0x5C] @ ''\<newline>--addr='' @ Addr ?m @ '' '' @ [CHR 0x5C]
     @ ''\<newline>--status-addr='' @ StatusAddr ?m @ '' '' @ [CHR 0x5C]
     @ ''\<newline>--data-dir='' @ DataDir ?m @ '' '' @ [CHR 0x5C] @ ''\<newline>''"
  have "extraArgsLine ?m
      = (if Spec_EnableDynamicConfiguration tc = Some True
         then ''\<newline>ARGS=\"${ARGS} --advertise-status-addr='' @ AdvertiseHost ?m @ '':''
                @ Itoa (DefaultTiKVStatusPort E) @ ''\"''
         else [])"
    unfolding extraArgsLine_def model_ExtraArgs by simp
  then show "\<exists>pre. RenderTiKVStartScript E tc
           = Return (pre @ ''--capacity='' @ Capacity (model E tc) @ '' '' @ [CHR 0x5C]
                     @ ''\<newline>--config=/etc/tikv/tikv.toml\"''
                     @ (if Spec_EnableDynamicConfiguration tc = Some True
                        then ''\<newline>ARGS=\"${ARGS} --advertise-status-addr=''
                               @ AdvertiseHost (model E tc) @ '':''
                               @ Itoa (DefaultTiKVStatusPort E) @ ''\"''
                        else [])
                     @ scriptEnd, None)"
    unfolding render_shape [OF wf] script_def
    by (intro exI [of _ ?pre]) (simp add: argsBlock_def)
qed

theorem extra_arguments_line_witness:
  "wellFormedFragments exampleEnv
   \<and> extraArgs exampleEnv (exampleTc\<lparr>Spec_EnableDynamicConfiguration := Some True\<rparr>)
       = [''--advertise-status-addr=${TIKV_POD_NAME}.basic-tikv-peer.ns.svc:20180'']
   \<and> extraArgs exampleEnv exampleTc = []
   \<and> (\<exists>pre. RenderTiKVStartScript exampleEnv (exampleTc\<lparr>Spec_EnableDynamicConfiguration := Some True\<rparr>)
           = Return (pre @ ''--capacity=${CAPACITY} '' @ [CHR 0x5C]
                     @ ''\<newline>--config=/etc/tikv/tikv.toml\"''
                     @ ''\<newline>ARGS=\"${ARGS} --advertise-status-addr=${TIKV_POD_NAME}.basic-tikv-peer.ns.svc:20180\"''
                     @ scriptEnd, None))"
proof -
  let ?tc = "exampleTc\<lparr>Spec_EnableDynamicConfiguration := Some True\<rparr>"
  have h: "AdvertiseHost (model exampleEnv ?tc) = ''${TIKV_POD_NAME}.basic-tikv-peer.ns.svc''"
    "Capacity (model exampleEnv ?tc) = ''${CAPACITY}''"
    "AdvertiseHost (model exampleEnv exampleTc) = ''${TIKV_POD_NAME}.basic-tikv-peer.ns.svc''"
    by (simp_all add: model_def advertiseHost_def exampleEnv_def exampleTc_def)
  have p: "Itoa (DefaultTiKVStatusPort exampleEnv) = ''20180''"
    by (simp add: exampleEnv_def Itoa_ports)
  have e: "Spec_EnableDynamicConfiguration ?tc = Some True"
    "Spec_EnableDynamicConfiguration exampleTc = None"
    by (simp_all add: exampleTc_def)
  show ?thesis
    using extra_arguments_line [of exampleEnv ?tc] extra_arguments_line [of exampleEnv exampleTc]
      exampleEnv_wellFormed
    unfolding h p e by simp
qed

section \<open>The polling loop of the discovery block\<close>






end
